theory Spec2Isabelle
  imports Main "HOL-Library.AList"
begin

section \<open>Python values, dictionaries and exceptions\<close>

text \<open>
  The module is Python 2: a value is dynamically typed, and text comes in two types,
  \<open>str\<close> (a byte string) and \<open>unicode\<close> (a sequence of code points). The validators
  of the module test exactly this distinction, so both are kept apart.
  \<open>PyInt\<close> and \<open>PyObject\<close> stand for the values that are no text (numbers, lists,
  dictionaries, ...); an object is identified by a token.
\<close>

datatype pyval =
    PyNone
  | PyInt int
  | PyStr string
  | PyUnicode "nat list"
  | PyObject nat

text \<open>A \<open>unicode\<close> literal of ASCII characters.\<close>

definition ascii :: "string \<Rightarrow> nat list" where
  "ascii s = map of_char s"

text \<open>
  \<open>unicode(data)\<close> on a byte string decodes it with the default codec, which accepts
  the bytes below 128 only.
\<close>

definition is_ascii :: "string \<Rightarrow> bool" where
  "is_ascii s = list_all (\<lambda>c. (of_char c :: nat) < 128) s"

text \<open>
  Python's \<open>==\<close>. A \<open>str\<close> and a \<open>unicode\<close> are equal when the byte string decodes
  (as ASCII) to the same code points; when it does not decode, the comparison is false.
\<close>

fun py_eq :: "pyval \<Rightarrow> pyval \<Rightarrow> bool" where
  "py_eq PyNone PyNone = True"
| "py_eq (PyInt a) (PyInt b) = (a = b)"
| "py_eq (PyStr a) (PyStr b) = (a = b)"
| "py_eq (PyUnicode a) (PyUnicode b) = (a = b)"
| "py_eq (PyStr a) (PyUnicode b) = (is_ascii a \<and> ascii a = b)"
| "py_eq (PyUnicode a) (PyStr b) = (is_ascii b \<and> ascii b = a)"
| "py_eq (PyObject a) (PyObject b) = (a = b)"
| "py_eq _ _ = False"

text \<open>Truth value of an object in a condition (\<open>if old_name:\<close>).\<close>

fun py_truthy :: "pyval \<Rightarrow> bool" where
  "py_truthy PyNone = False"
| "py_truthy (PyInt i) = (i \<noteq> 0)"
| "py_truthy (PyStr s) = (s \<noteq> [])"
| "py_truthy (PyUnicode u) = (u \<noteq> [])"
| "py_truthy (PyObject _) = True"

text \<open>\<open>isinstance(data, basestring)\<close>: \<open>str\<close> and \<open>unicode\<close> are the two subclasses.\<close>

fun isinstance_basestring :: "pyval \<Rightarrow> bool" where
  "isinstance_basestring (PyStr _) = True"
| "isinstance_basestring (PyUnicode _) = True"
| "isinstance_basestring _ = False"

text \<open>The code points substituted for a text value by \<open>unicode.format\<close>.\<close>

fun py_text :: "pyval \<Rightarrow> nat list" where
  "py_text (PyStr s) = ascii s"
| "py_text (PyUnicode u) = u"
| "py_text _ = []"

text \<open>
  A dictionary with string keys is an association list; \<open>map_of\<close> reads it,
  \<open>AList.update\<close> is \<open>d[k] = v\<close> and \<open>AList.delete\<close> is \<open>del d[k]\<close>.
\<close>

type_synonym 'v dict = "(string \<times> 'v) list"

definition has_key :: "string \<Rightarrow> 'v dict \<Rightarrow> bool" where
  "has_key k d = (map_of d k \<noteq> None)"

record field_error =
  developer_message :: string
  user_message :: string

type_synonym field_errors = "field_error dict"

text \<open>
  The exceptions the module raises, catches or lets through. \<open>OtherException\<close> is any
  exception class the module does not name, with its \<open>message\<close>.
\<close>

datatype exn =
    UserNotFound
  | UserNotAuthorized
  | UserAPIInternalError
  | AccountValidationError field_errors
  | AccountUpdateError string "string option"
  | AccountUserAlreadyExists
  | AccountUsernameInvalid string
  | AccountPasswordInvalid string
  | AccountEmailInvalid string
  | AccountUsernameAlreadyExists string
  | AccountEmailAlreadyExists string
  | AccountDataBadLength string
  | AccountDataBadType string
  | PreferenceValidationError field_errors
  | UnicodeError string
  | ValidationError string
  | ValueError string
  | TypeError
  | KeyError string
  | IntegrityError
  | MultipleObjectsReturned
  | OtherException string

text \<open>The \<open>message\<close> attribute of an exception (its single argument, if it has one).\<close>

fun message :: "exn \<Rightarrow> string" where
  "message (AccountUpdateError m _) = m"
| "message (AccountUsernameInvalid m) = m"
| "message (AccountPasswordInvalid m) = m"
| "message (AccountEmailInvalid m) = m"
| "message (AccountUsernameAlreadyExists m) = m"
| "message (AccountEmailAlreadyExists m) = m"
| "message (AccountDataBadLength m) = m"
| "message (AccountDataBadType m) = m"
| "message (UnicodeError m) = m"
| "message (ValidationError m) = m"
| "message (ValueError m) = m"
| "message (KeyError m) = m"
| "message (OtherException m) = m"
| "message _ = []"

text \<open>
  Modelled from the spec: the class hierarchy of \<open>..errors\<close> is not part of the sources
  at hand. The request errors are the ones every public entry point lets through
  unchanged: NotFound, NotAuthorized, the validation and update errors that the
  docstrings of the entry points list under \<open>Raises\<close>, and the Invalid / AlreadyExists /
  BadType / BadLength family. Everything else is an unexpected internal exception.
\<close>

fun is_UserAPIRequestError :: "exn \<Rightarrow> bool" where
  "is_UserAPIRequestError UserNotFound = True"
| "is_UserAPIRequestError UserNotAuthorized = True"
| "is_UserAPIRequestError (AccountValidationError _) = True"
| "is_UserAPIRequestError (AccountUpdateError _ _) = True"
| "is_UserAPIRequestError AccountUserAlreadyExists = True"
| "is_UserAPIRequestError (AccountUsernameInvalid _) = True"
| "is_UserAPIRequestError (AccountPasswordInvalid _) = True"
| "is_UserAPIRequestError (AccountEmailInvalid _) = True"
| "is_UserAPIRequestError (AccountUsernameAlreadyExists _) = True"
| "is_UserAPIRequestError (AccountEmailAlreadyExists _) = True"
| "is_UserAPIRequestError (AccountDataBadLength _) = True"
| "is_UserAPIRequestError (AccountDataBadType _) = True"
| "is_UserAPIRequestError _ = False"

text \<open>
  Modelled from the spec: the decorator \<open>intercept_errors(UserAPIInternalError,
  ignore_errors=[UserAPIRequestError])\<close> of \<open>..helpers\<close>. A request error passes
  through unchanged, any other exception is re-surfaced as the internal error, a
  returned value is returned.
\<close>

definition intercept_errors :: "exn + 'a \<Rightarrow> exn + 'a" where
  "intercept_errors r =
     (case r of
        Inl e \<Rightarrow> if is_UserAPIRequestError e then Inl e else Inl UserAPIInternalError
      | Inr v \<Rightarrow> Inr v)"

text \<open>Sequencing of two statements that may raise: the second runs if the first returned.\<close>

definition and_then :: "exn + unit \<Rightarrow> exn + 'a \<Rightarrow> exn + 'a" where
  "and_then r k = (case r of Inl e \<Rightarrow> Inl e | Inr _ \<Rightarrow> k)"

section \<open>Constants and collaborators of the validators\<close>

text \<open>
  The length bounds and messages are the constants the module imports from its package
  (\<open>from . import ...\<close>); \<open>EMAIL_INVALID_MSG\<close> and the two conflict messages are
  templates, given as functions of the value that is formatted in. The package file is
  not among the sources, so the constants are parameters of the model.
\<close>

record constants =
  USERNAME_MIN_LENGTH :: int
  USERNAME_MAX_LENGTH :: int
  EMAIL_MIN_LENGTH :: int
  EMAIL_MAX_LENGTH :: int
  PASSWORD_MIN_LENGTH :: int
  PASSWORD_MAX_LENGTH :: int
  USERNAME_BAD_LENGTH_MSG :: string
  EMAIL_BAD_LENGTH_MSG :: string
  PASSWORD_BAD_LENGTH_MSG :: string
  USERNAME_BAD_TYPE_MSG :: string
  EMAIL_BAD_TYPE_MSG :: string
  PASSWORD_BAD_TYPE_MSG :: string
  PASSWORD_CANT_EQUAL_USERNAME_MSG :: string
  EMAIL_INVALID_MSG :: "pyval \<Rightarrow> string"
  USERNAME_CONFLICT_MSG :: "pyval \<Rightarrow> string"
  EMAIL_CONFLICT_MSG :: "pyval \<Rightarrow> string"

text \<open>
  The two format checks live outside the module: \<open>student_forms.validate_username\<close>
  (the platform's username rule) and Django's \<open>validate_email\<close>. Each is a parameter:
  the first gives the message of the \<open>ValidationError\<close> it raises, if it raises; the
  second says whether the address is accepted.
\<close>

record format_checks =
  forms_validate_username :: "pyval \<Rightarrow> string option"
  django_validate_email :: "pyval \<Rightarrow> bool"

section \<open>The field validators\<close>

text \<open>
  The private functions of the module (\<open>_validate_username\<close>, \<open>_validate_length\<close>,
  \<open>_get_user_and_profile\<close>, ...) keep their names without the leading underscore.
\<close>

definition validate_unicode :: "pyval \<Rightarrow> string \<Rightarrow> exn + unit" where
  "validate_unicode data err =
     (case data of
        PyStr s \<Rightarrow> if is_ascii s then Inr () else Inl (UnicodeError err)
      | PyUnicode u \<Rightarrow> Inr ()
      | _ \<Rightarrow> Inl (UnicodeError err))"

definition validate_type :: "pyval \<Rightarrow> (pyval \<Rightarrow> bool) \<Rightarrow> string \<Rightarrow> exn + unit" where
  "validate_type data isinstance_type err =
     (if \<not> isinstance_type data then Inl (AccountDataBadType err) else Inr ())"

text \<open>\<open>len(data)\<close> is defined on text; on the other values of the model it raises.\<close>

fun py_len :: "pyval \<Rightarrow> exn + nat" where
  "py_len (PyStr s) = Inr (length s)"
| "py_len (PyUnicode u) = Inr (length u)"
| "py_len _ = Inl TypeError"

definition validate_length :: "pyval \<Rightarrow> int \<Rightarrow> int \<Rightarrow> string \<Rightarrow> exn + unit" where
  "validate_length data min_len max_len err =
     (case py_len data of
        Inl e \<Rightarrow> Inl e
      | Inr n \<Rightarrow>
          if int n < min_len \<or> int n > max_len then Inl (AccountDataBadLength err)
          else Inr ())"

definition validate_password_works_with_username :: "constants \<Rightarrow> pyval \<Rightarrow> pyval \<Rightarrow> exn + unit" where
  "validate_password_works_with_username C password username =
     (if py_eq password username
      then Inl (AccountPasswordInvalid (PASSWORD_CANT_EQUAL_USERNAME_MSG C))
      else Inr ())"

text \<open>
  The \<open>except (UnicodeError, AccountDataBadType, AccountDataBadLength, ValidationError)\<close>
  clause of the username and email validators: the four caught classes are re-raised
  as the validator's own error, with the same message; anything else propagates.
\<close>

definition reraise_invalid :: "(string \<Rightarrow> exn) \<Rightarrow> exn + unit \<Rightarrow> exn + unit" where
  "reraise_invalid invalid r =
     (case r of
        Inl (UnicodeError m) \<Rightarrow> Inl (invalid m)
      | Inl (AccountDataBadType m) \<Rightarrow> Inl (invalid m)
      | Inl (AccountDataBadLength m) \<Rightarrow> Inl (invalid m)
      | Inl (ValidationError m) \<Rightarrow> Inl (invalid m)
      | _ \<Rightarrow> r)"

definition validate_username :: "constants \<Rightarrow> format_checks \<Rightarrow> pyval \<Rightarrow> exn + unit" where
  "validate_username C F username =
     reraise_invalid AccountUsernameInvalid
       (and_then (validate_unicode username ''Input not valid unicode'')
       (and_then (validate_type username isinstance_basestring (USERNAME_BAD_TYPE_MSG C))
       (and_then (validate_length username (USERNAME_MIN_LENGTH C) (USERNAME_MAX_LENGTH C)
                    (USERNAME_BAD_LENGTH_MSG C))
          (case forms_validate_username F username of
             Some m \<Rightarrow> Inl (ValidationError m)
           | None \<Rightarrow> Inr ()))))"

definition validate_email :: "constants \<Rightarrow> format_checks \<Rightarrow> pyval \<Rightarrow> exn + unit" where
  "validate_email C F email =
     reraise_invalid AccountEmailInvalid
       (and_then (validate_unicode email ''Input not valid unicode'')
       (and_then (validate_type email isinstance_basestring (EMAIL_BAD_TYPE_MSG C))
       (and_then (validate_length email (EMAIL_MIN_LENGTH C) (EMAIL_MAX_LENGTH C)
                    (EMAIL_BAD_LENGTH_MSG C))
          (if django_validate_email F email then Inr ()
           else Inl (ValidationError (EMAIL_INVALID_MSG C email))))))"

text \<open>
  The password validator catches \<open>(AccountDataBadType, AccountDataBadLength)\<close> only,
  and calls no \<open>_validate_unicode\<close>.
\<close>

definition validate_password :: "constants \<Rightarrow> pyval \<Rightarrow> pyval \<Rightarrow> exn + unit" where
  "validate_password C password username =
     (case and_then (validate_type password isinstance_basestring (PASSWORD_BAD_TYPE_MSG C))
          (and_then (validate_length password (PASSWORD_MIN_LENGTH C) (PASSWORD_MAX_LENGTH C)
                       (PASSWORD_BAD_LENGTH_MSG C))
             (validate_password_works_with_username C password username)) of
        Inl (AccountDataBadType m) \<Rightarrow> Inl (AccountPasswordInvalid m)
      | Inl (AccountDataBadLength m) \<Rightarrow> Inl (AccountPasswordInvalid m)
      | r \<Rightarrow> r)"

section \<open>The stores\<close>

text \<open>
  The identity record (\<open>User\<close>), the profile record (\<open>UserProfile\<close>) and the
  registration record, with the attributes the module reads or writes. A table is the
  list of its rows, each row under its primary key; a profile is stored under the key
  of its identity record (one profile per identity).
\<close>

record user =
  username :: pyval
  email :: pyval
  password :: string
  is_active :: bool
  is_staff :: bool

text \<open>
  \<open>old_names\<close> is the entry of that name in the profile's \<open>meta\<close> dictionary, absent
  until the first change of name; an entry of the history is the old name, the
  description and the timestamp. \<open>other_fields\<close> holds the remaining profile columns.
\<close>

record profile =
  name :: pyval
  language_proficiencies :: pyval
  old_names :: "(pyval \<times> nat list \<times> string) list option"
  other_fields :: "pyval dict"

record registration =
  registration_user :: nat
  activation_key :: string

text \<open>What \<open>emit_setting_changed_event\<close> was called with (the table name apart).\<close>

record setting_changed_event =
  event_user :: nat
  setting_name :: string
  old_value :: pyval
  new_value :: pyval

type_synonym preferences = "((nat \<times> string) \<times> pyval) list"

record db =
  users :: "(nat \<times> user) list"
  profiles :: "(nat \<times> profile) list"
  registrations :: "registration list"
  user_preferences :: preferences
  emitted_events :: "setting_changed_event list"
  email_change_requests :: "(nat \<times> pyval) list"
  next_id :: nat

text \<open>
  \<open>User.objects.get(username=...)\<close>: the single matching row, or one of the two
  exceptions of \<open>get\<close>. A lookup by username or by email compares the stored value
  with the given one by Python's equality.
\<close>

datatype lookup_failure = DoesNotExist | MultipleObjects

definition objects_get :: "db \<Rightarrow> pyval \<Rightarrow> lookup_failure + (nat \<times> user)" where
  "objects_get d uname =
     (case filter (\<lambda>row. py_eq (username (snd row)) uname) (users d) of
        [] \<Rightarrow> Inl DoesNotExist
      | [row] \<Rightarrow> Inr row
      | _ \<Rightarrow> Inl MultipleObjects)"

text \<open>
  Modelled from the spec: the model class \<open>UserProfile\<close> is defined in another file.
  The empty profile record that \<open>UserProfile(user=user)\<close> and \<open>get_or_create\<close>
  construct has every column at its default: an empty name, no language proficiency, an
  empty \<open>meta\<close> dictionary.
\<close>

definition empty_profile :: profile where
  "empty_profile =
     \<lparr>name = PyUnicode [], language_proficiencies = PyNone, old_names = None,
      other_fields = []\<rparr>"

text \<open>\<open>UserProfile.objects.get_or_create(user=existing_user)\<close>.\<close>

definition get_or_create_profile :: "db \<Rightarrow> nat \<Rightarrow> profile \<times> db" where
  "get_or_create_profile d uid =
     (case map_of (profiles d) uid of
        Some p \<Rightarrow> (p, d)
      | None \<Rightarrow> (empty_profile, d\<lparr>profiles := AList.update uid empty_profile (profiles d)\<rparr>))"

definition get_user_and_profile :: "db \<Rightarrow> pyval \<Rightarrow> (exn + ((nat \<times> user) \<times> profile)) \<times> db" where
  "get_user_and_profile d uname =
     (case objects_get d uname of
        Inl DoesNotExist \<Rightarrow> (Inl UserNotFound, d)
      | Inl MultipleObjects \<Rightarrow> (Inl MultipleObjectsReturned, d)
      | Inr existing_user \<Rightarrow>
          (let (existing_user_profile, d') = get_or_create_profile d (fst existing_user)
           in (Inr (existing_user, existing_user_profile), d')))"

text \<open>Saving an instance writes its row, under the key it was loaded with.\<close>

definition save_user :: "nat \<Rightarrow> user \<Rightarrow> db \<Rightarrow> db" where
  "save_user uid u d = d\<lparr>users := AList.update uid u (users d)\<rparr>"

definition save_profile :: "nat \<Rightarrow> profile \<Rightarrow> db \<Rightarrow> db" where
  "save_profile uid p d = d\<lparr>profiles := AList.update uid p (profiles d)\<rparr>"

section \<open>Existence checks\<close>

definition validate_username_doesnt_exist :: "constants \<Rightarrow> db \<Rightarrow> pyval \<Rightarrow> exn + unit" where
  "validate_username_doesnt_exist C d uname =
     (if uname \<noteq> PyNone \<and> list_ex (\<lambda>row. py_eq (username (snd row)) uname) (users d)
      then Inl (AccountUsernameAlreadyExists (USERNAME_CONFLICT_MSG C uname))
      else Inr ())"

definition validate_email_doesnt_exist :: "constants \<Rightarrow> db \<Rightarrow> pyval \<Rightarrow> exn + unit" where
  "validate_email_doesnt_exist C d addr =
     (if addr \<noteq> PyNone \<and> list_ex (\<lambda>row. py_eq (email (snd row)) addr) (users d)
      then Inl (AccountEmailAlreadyExists (EMAIL_CONFLICT_MSG C addr))
      else Inr ())"

text \<open>
  Each \<open>try\<close> catches the one exception class of its check; any other exception of the
  check would leave the function.
\<close>

definition check_account_exists :: "constants \<Rightarrow> db \<Rightarrow> pyval \<Rightarrow> pyval \<Rightarrow> exn + string list" where
  "check_account_exists C d uname addr =
     (case (case validate_email_doesnt_exist C d addr of
              Inl (AccountEmailAlreadyExists m) \<Rightarrow> Inr [''email'']
            | Inl e \<Rightarrow> Inl e
            | Inr u \<Rightarrow> Inr []) of
        Inl e \<Rightarrow> Inl e
      | Inr conflicts \<Rightarrow>
          (case validate_username_doesnt_exist C d uname of
             Inl (AccountUsernameAlreadyExists m) \<Rightarrow> Inr (conflicts @ [''username''])
           | Inl e \<Rightarrow> Inl e
           | Inr u \<Rightarrow> Inr conflicts))"

section \<open>Site settings and collaborators\<close>

text \<open>
  The values the module reads from the site configuration and the Django settings.
  A setting that may be absent is an option.
\<close>

record site_settings =
  site_ALLOW_PUBLIC_ACCOUNT_CREATION :: "bool option"
  FEATURES_ALLOW_PUBLIC_ACCOUNT_CREATION :: "bool option"
  FEATURES_ALLOW_EMAIL_ADDRESS_CHANGE :: "bool option"
  ACCOUNT_VISIBILITY_admin_fields :: "string list option"

text \<open>
  Modelled from the spec: \<open>configuration_helpers.get_value\<close>, the configuration
  provider, is a keyed lookup with a fallback default.
\<close>

definition get_value :: "'a option \<Rightarrow> 'a \<Rightarrow> 'a" where
  "get_value site_value fallback = (case site_value of Some v \<Rightarrow> v | None \<Rightarrow> fallback)"

text \<open>
  The serializers are classes of another file. A parameter gives, for each, its
  read-only field names, the entries that \<open>add_serializer_errors\<close> records for it on
  given data (none when \<open>is_valid()\<close> holds), and the instance that \<open>save()\<close> leaves
  (or the exception it raises). \<open>UserReadOnlySerializer\<close> gives the account view of a
  user for a requesting user, a configuration and the custom fields.
\<close>

type_synonym account_view = "pyval dict"

record serializers =
  user_read_only_fields :: "string list"
  profile_read_only_fields :: "string list"
  user_serializer_errors :: "user \<Rightarrow> pyval dict \<Rightarrow> field_errors"
  profile_serializer_errors :: "profile \<Rightarrow> pyval dict \<Rightarrow> field_errors"
  user_serializer_save :: "user \<Rightarrow> pyval dict \<Rightarrow> exn + user"
  profile_serializer_save :: "profile \<Rightarrow> pyval dict \<Rightarrow> exn + profile"
  UserReadOnlySerializer ::
    "user \<Rightarrow> user \<Rightarrow> profile option \<Rightarrow> pyval \<Rightarrow> string list option \<Rightarrow> account_view"

text \<open>
  The other collaborators. \<open>validate_new_email\<close> and \<open>do_email_change_request\<close> raise
  a \<open>ValueError\<close> with a message, or return; \<open>update_user_preferences\<close> returns the new
  preference store or raises; \<open>make_password\<close> is the credential hash, and the two last
  fields are the clock and the generator of activation keys.
\<close>

record collaborators =
  validate_new_email :: "db \<Rightarrow> user \<Rightarrow> pyval \<Rightarrow> string option"
  do_email_change_request :: "user \<Rightarrow> pyval \<Rightarrow> string option"
  update_user_preferences ::
    "user \<Rightarrow> pyval dict \<Rightarrow> nat \<times> user \<Rightarrow> preferences \<Rightarrow> exn + preferences"
  make_password :: "pyval \<Rightarrow> string"
  now_isoformat :: string
  new_activation_key :: "db \<Rightarrow> string"

section \<open>Reading accounts\<close>

text \<open>
  \<open>usernames or [requesting_user.username]\<close> takes the requester's own name when the
  argument is \<open>None\<close> or empty. \<open>filter(username__in=usernames)\<close> selects the rows of
  the table whose username is one of the requested ones, as the table holds them.
\<close>

text \<open>The body of the loop: the view of one requested user.\<close>

definition account_view_for ::
  "site_settings \<Rightarrow> serializers \<Rightarrow> db \<Rightarrow> user \<Rightarrow> pyval \<Rightarrow> pyval \<Rightarrow> nat \<times> user \<Rightarrow> account_view" where
  "account_view_for S Z d requesting_user configuration view row =
     (let has_full_access =
            (is_staff requesting_user \<or> py_eq (username requesting_user) (username (snd row)));
          admin_fields =
            (if has_full_access \<and> \<not> py_eq view (PyStr ''shared'')
             then ACCOUNT_VISIBILITY_admin_fields S
             else None)
      in UserReadOnlySerializer Z requesting_user (snd row)
           (map_of (profiles d) (fst row)) configuration admin_fields)"

definition get_account_settings ::
  "site_settings \<Rightarrow> serializers \<Rightarrow> db \<Rightarrow> user \<Rightarrow> pyval list option \<Rightarrow> pyval \<Rightarrow> pyval
     \<Rightarrow> exn + account_view list" where
  "get_account_settings S Z d requesting_user usernames_arg configuration view =
     intercept_errors
       (let usernames =
              (case usernames_arg of
                 None \<Rightarrow> [username requesting_user]
               | Some [] \<Rightarrow> [username requesting_user]
               | Some ns \<Rightarrow> ns);
            requested_users =
              filter (\<lambda>row. list_ex (py_eq (username (snd row))) usernames) (users d)
        in if requested_users = [] then Inl UserNotFound
           else Inr (map (account_view_for S Z d requesting_user configuration view)
                       requested_users))"

section \<open>Creating an account\<close>

text \<open>What \<open>create_account\<close> returns: the activation key, or the response object.\<close>

datatype create_result = ActivationKey string | HttpResponseForbidden string

text \<open>
  Modelled from the spec: saving a new identity record. The store enforces that
  username and email are unique and raises \<open>IntegrityError\<close> on a conflict; otherwise
  the row is added under a fresh key.
\<close>

definition insert_user :: "user \<Rightarrow> db \<Rightarrow> exn + (nat \<times> db)" where
  "insert_user u d =
     (if list_ex (\<lambda>row. py_eq (username (snd row)) (username u)
                        \<or> py_eq (email (snd row)) (email u)) (users d)
      then Inl IntegrityError
      else Inr (next_id d, d\<lparr>users := users d @ [(next_id d, u)], next_id := Suc (next_id d)\<rparr>))"

text \<open>\<open>transaction.atomic\<close>: an exception that leaves the function undoes its writes.\<close>

definition transaction_atomic :: "db \<Rightarrow> (exn + 'a) \<times> db \<Rightarrow> (exn + 'a) \<times> db" where
  "transaction_atomic d0 r = (case fst r of Inl e \<Rightarrow> (Inl e, d0) | Inr v \<Rightarrow> r)"

definition public_account_creation_allowed :: "site_settings \<Rightarrow> bool" where
  "public_account_creation_allowed S =
     get_value (site_ALLOW_PUBLIC_ACCOUNT_CREATION S)
       (case FEATURES_ALLOW_PUBLIC_ACCOUNT_CREATION S of Some b \<Rightarrow> b | None \<Rightarrow> True)"

text \<open>
  The function as written, and below it the function under its two decorators,
  \<open>transaction.atomic\<close> inside \<open>intercept_errors\<close>.
\<close>

definition create_account_body ::
  "constants \<Rightarrow> format_checks \<Rightarrow> site_settings \<Rightarrow> collaborators \<Rightarrow> db
     \<Rightarrow> pyval \<Rightarrow> pyval \<Rightarrow> pyval \<Rightarrow> (exn + create_result) \<times> db" where
  "create_account_body C F S K d uname passwd addr =
     (if \<not> public_account_creation_allowed S
      then (Inr (HttpResponseForbidden ''Account creation not allowed.''), d)
      else
        (case and_then (validate_username C F uname)
               (and_then (validate_password C passwd uname)
                  (validate_email C F addr)) of
           Inl e \<Rightarrow> (Inl e, d)
         | Inr u \<Rightarrow>
             (let new_user = \<lparr>username = uname, email = addr, password = make_password K passwd,
                              is_active = False, is_staff = False\<rparr>
              in case insert_user new_user d of
                   Inl IntegrityError \<Rightarrow> (Inl AccountUserAlreadyExists, d)
                 | Inl e \<Rightarrow> (Inl e, d)
                 | Inr (uid, d1) \<Rightarrow>
                     (let key = new_activation_key K d1;
                          d2 = d1\<lparr>registrations := registrations d1 @
                                   [\<lparr>registration_user = uid, activation_key = key\<rparr>]\<rparr>;
                          d3 = save_profile uid empty_profile d2
                      in (Inr (ActivationKey key), d3)))))"

definition create_account ::
  "constants \<Rightarrow> format_checks \<Rightarrow> site_settings \<Rightarrow> collaborators \<Rightarrow> db
     \<Rightarrow> pyval \<Rightarrow> pyval \<Rightarrow> pyval \<Rightarrow> (exn + create_result) \<times> db" where
  "create_account C F S K d uname passwd addr =
     (let r = transaction_atomic d (create_account_body C F S K d uname passwd addr)
      in (intercept_errors (fst r), snd r))"

section \<open>Updating an account\<close>

text \<open>The messages are built with \<open>"... '{}'".format(m)\<close>: the text between quotes.\<close>

definition quoted :: "string \<Rightarrow> string" where
  "quoted m = [CHR 0x27] @ m @ [CHR 0x27]"

text \<open>
  One turn of the loop over the read-only fields that were requested: the field gets
  its entry in the error dictionary and leaves the update.
\<close>

definition reject_read_only ::
  "string \<Rightarrow> field_errors \<times> pyval dict \<Rightarrow> field_errors \<times> pyval dict" where
  "reject_read_only read_only_field acc =
     (AList.update read_only_field
        \<lparr>developer_message = ''This field is not editable via this API'',
         user_message = ''The '' @ quoted read_only_field @ '' field cannot be edited.''\<rparr>
        (fst acc),
      AList.delete read_only_field (snd acc))"

text \<open>
  Modelled from the spec: \<open>add_serializer_errors\<close> of \<open>openedx.core.lib.api.view_utils\<close>
  adds the entries of a serializer's validation to the aggregated error dictionary.
\<close>

definition add_serializer_errors :: "field_errors \<Rightarrow> field_errors \<Rightarrow> field_errors" where
  "add_serializer_errors errors field_errors =
     fold (\<lambda>entry acc. AList.update (fst entry) (snd entry) acc) errors field_errors"

text \<open>
  The validation phase, from the extraction of \<open>email\<close> to the last entry of
  \<open>field_errors\<close>. It gives the errors and the update without \<open>email\<close> and without the
  read-only fields, which is the data both serializers are built on.
\<close>

definition collect_field_errors ::
  "serializers \<Rightarrow> collaborators \<Rightarrow> db \<Rightarrow> user \<Rightarrow> profile \<Rightarrow> pyval dict
     \<Rightarrow> field_errors \<times> pyval dict" where
  "collect_field_errors Z K d existing_user existing_user_profile update0 =
     (let update1 = AList.delete ''email'' update0;
          read_only_fields =
            filter (\<lambda>f. has_key f update1)
              (remdups (user_read_only_fields Z @ profile_read_only_fields Z));
          acc = fold reject_read_only read_only_fields ([], update1);
          update2 = snd acc;
          field_errors1 =
            add_serializer_errors (profile_serializer_errors Z existing_user_profile update2)
              (add_serializer_errors (user_serializer_errors Z existing_user update2) (fst acc));
          field_errors2 =
            (case map_of update0 ''email'' of
               None \<Rightarrow> field_errors1
             | Some new_email \<Rightarrow>
                 (case validate_new_email K d existing_user new_email of
                    None \<Rightarrow> field_errors1
                  | Some m \<Rightarrow>
                      AList.update ''email''
                        \<lparr>developer_message = ''Error thrown from validate_new_email: '' @ quoted m,
                         user_message = m\<rparr>
                        field_errors1))
      in (field_errors2, update2))"

text \<open>The entry appended to \<open>meta['old_names']\<close>, and the profile with the entry.\<close>

definition record_name_change :: "collaborators \<Rightarrow> user \<Rightarrow> pyval \<Rightarrow> profile \<Rightarrow> profile" where
  "record_name_change K requesting_user old_name p =
     (let entry = (old_name,
                   ascii ''Name change requested through account API by ''
                     @ py_text (username requesting_user),
                   now_isoformat K)
      in p\<lparr>old_names :=
             Some ((case old_names p of None \<Rightarrow> [] | Some entries \<Rightarrow> entries) @ [entry])\<rparr>)"

definition emit_setting_changed_event :: "nat \<Rightarrow> string \<Rightarrow> pyval \<Rightarrow> pyval \<Rightarrow> db \<Rightarrow> db" where
  "emit_setting_changed_event uid setting old new d =
     d\<lparr>emitted_events := emitted_events d @
         [\<lparr>event_user = uid, setting_name = setting, old_value = old, new_value = new\<rparr>]\<rparr>"

text \<open>
  The body of the \<open>try\<close> block: both serializers are saved, the privacy preference is
  pushed, the change of language proficiencies is emitted, the old name is recorded.
  An exception leaves the block with the store as the earlier statements wrote it.
  On return the identity instance is the saved one.
\<close>

definition save_account_updates ::
  "serializers \<Rightarrow> collaborators \<Rightarrow> db \<Rightarrow> user \<Rightarrow> nat \<times> user \<Rightarrow> profile \<Rightarrow> pyval dict
     \<Rightarrow> pyval \<Rightarrow> (exn + user) \<times> db" where
  "save_account_updates Z K d requesting_user existing_user existing_user_profile update2 old_name =
     (let uid = fst existing_user;
          old_language_proficiencies = language_proficiencies existing_user_profile
      in case user_serializer_save Z (snd existing_user) update2 of
           Inl e \<Rightarrow> (Inl e, d)
         | Inr saved_user \<Rightarrow>
        (let d1 = save_user uid saved_user d
         in case profile_serializer_save Z existing_user_profile update2 of
              Inl e \<Rightarrow> (Inl e, d1)
            | Inr saved_profile \<Rightarrow>
           (let d2 = save_profile uid saved_profile d1
            in case (case map_of update2 ''account_privacy'' of
                       None \<Rightarrow> Inr (user_preferences d2)
                     | Some v \<Rightarrow>
                         update_user_preferences K requesting_user [(''account_privacy'', v)]
                           (uid, saved_user) (user_preferences d2)) of
                 Inl e \<Rightarrow> (Inl e, d2)
               | Inr prefs \<Rightarrow>
              (let d3 = d2\<lparr>user_preferences := prefs\<rparr>;
                   d4 = (case map_of update2 ''language_proficiencies'' of
                           None \<Rightarrow> d3
                         | Some new_language_proficiencies \<Rightarrow>
                             emit_setting_changed_event uid ''language_proficiencies''
                               old_language_proficiencies new_language_proficiencies d3);
                   d5 = (if py_truthy old_name
                         then save_profile uid
                                (record_name_change K requesting_user old_name saved_profile) d4
                         else d4)
               in (Inr saved_user, d5)))))"

text \<open>The email step, after the \<open>try\<close> block.\<close>

definition request_email_change ::
  "site_settings \<Rightarrow> collaborators \<Rightarrow> db \<Rightarrow> nat \<times> user \<Rightarrow> pyval \<Rightarrow> (exn + unit) \<times> db" where
  "request_email_change S K d existing_user new_email =
     (case FEATURES_ALLOW_EMAIL_ADDRESS_CHANGE S of
        None \<Rightarrow> (Inl (KeyError ''ALLOW_EMAIL_ADDRESS_CHANGE''), d)
      | Some False \<Rightarrow>
          (Inl (AccountUpdateError
                  ''Email address changes have been disabled by the site operators.'' None), d)
      | Some True \<Rightarrow>
          (case do_email_change_request K (snd existing_user) new_email of
             Some m \<Rightarrow>
               (Inl (AccountUpdateError
                       (''Error thrown from do_email_change_request: '' @ quoted m) (Some m)), d)
           | None \<Rightarrow>
               (Inr (), d\<lparr>email_change_requests :=
                             email_change_requests d @ [(fst existing_user, new_email)]\<rparr>)))"

text \<open>\<open>if username is None: username = requesting_user.username\<close>.\<close>

definition target_username :: "user \<Rightarrow> pyval \<Rightarrow> pyval" where
  "target_username requesting_user username_arg =
     (if username_arg = PyNone then username requesting_user else username_arg)"

definition update_account_settings_body ::
  "site_settings \<Rightarrow> serializers \<Rightarrow> collaborators \<Rightarrow> db \<Rightarrow> user \<Rightarrow> pyval dict \<Rightarrow> pyval
     \<Rightarrow> (exn + unit) \<times> db" where
  "update_account_settings_body S Z K d requesting_user update0 username_arg =
     (let uname = target_username requesting_user username_arg
      in case get_user_and_profile d uname of
           (Inl e, d1) \<Rightarrow> (Inl e, d1)
         | (Inr (existing_user, existing_user_profile), d1) \<Rightarrow>
             if \<not> py_eq (username requesting_user) uname then (Inl UserNotAuthorized, d1)
             else
               (let old_name = (if has_key ''name'' (AList.delete ''email'' update0)
                                then name existing_user_profile else PyNone);
                    validated = collect_field_errors Z K d1 (snd existing_user)
                                  existing_user_profile update0;
                    field_errors = fst validated;
                    update2 = snd validated
                in if field_errors \<noteq> [] then (Inl (AccountValidationError field_errors), d1)
                   else
                     (case save_account_updates Z K d1 requesting_user existing_user
                             existing_user_profile update2 old_name of
                        (Inl (PreferenceValidationError preference_errors), d2) \<Rightarrow>
                          (Inl (AccountValidationError preference_errors), d2)
                      | (Inl e, d2) \<Rightarrow>
                          (Inl (AccountUpdateError
                                  (''Error thrown when saving account updates: ''
                                     @ quoted (message e)) None), d2)
                      | (Inr saved_user, d2) \<Rightarrow>
                          (case map_of update0 ''email'' of
                             None \<Rightarrow> (Inr (), d2)
                           | Some new_email \<Rightarrow>
                               request_email_change S K d2 (fst existing_user, saved_user)
                                 new_email))))"

text \<open>The function under its decorator \<open>intercept_errors\<close>.\<close>

definition update_account_settings ::
  "site_settings \<Rightarrow> serializers \<Rightarrow> collaborators \<Rightarrow> db \<Rightarrow> user \<Rightarrow> pyval dict \<Rightarrow> pyval
     \<Rightarrow> (exn + unit) \<times> db" where
  "update_account_settings S Z K d requesting_user update0 username_arg =
     (let r = update_account_settings_body S Z K d requesting_user update0 username_arg
      in (intercept_errors (fst r), snd r))"

section \<open>Concrete constants, collaborators and stores\<close>

text \<open>
  The instances at which the theorems below are evaluated. The length bounds are the
  ones the platform ships (2 to 30 for a username, 3 to 254 for an email, 2 to 75 for a
  password); the format checks, serializers and collaborators are small stand-ins that
  keep the contract of the real ones.
\<close>

definition platform_constants :: constants where
  "platform_constants =
     \<lparr>USERNAME_MIN_LENGTH = 2, USERNAME_MAX_LENGTH = 30,
      EMAIL_MIN_LENGTH = 3, EMAIL_MAX_LENGTH = 254,
      PASSWORD_MIN_LENGTH = 2, PASSWORD_MAX_LENGTH = 75,
      USERNAME_BAD_LENGTH_MSG = ''Username must be between 2 and 30 characters long.'',
      EMAIL_BAD_LENGTH_MSG = ''Email must be between 3 and 254 characters long.'',
      PASSWORD_BAD_LENGTH_MSG = ''Password must be between 2 and 75 characters long.'',
      USERNAME_BAD_TYPE_MSG = ''Username must be a string.'',
      EMAIL_BAD_TYPE_MSG = ''Email must be a string.'',
      PASSWORD_BAD_TYPE_MSG = ''Password must be a string.'',
      PASSWORD_CANT_EQUAL_USERNAME_MSG = ''Password cannot be the same as the username.'',
      EMAIL_INVALID_MSG = (\<lambda>v. ''Email is not in a valid format.''),
      USERNAME_CONFLICT_MSG = (\<lambda>v. ''An account with this username already exists.''),
      EMAIL_CONFLICT_MSG = (\<lambda>v. ''An account with this email already exists.'')\<rparr>"

definition simple_checks :: format_checks where
  "simple_checks =
     \<lparr>forms_validate_username =
        (\<lambda>v. if 32 \<in> set (py_text v) then Some ''Usernames must not contain spaces.'' else None),
      django_validate_email = (\<lambda>v. 64 \<in> set (py_text v))\<rparr>"

definition ted :: user where
  "ted = \<lparr>username = PyUnicode (ascii ''ted''), email = PyUnicode (ascii ''ted@example.com''),
          password = ''pbkdf2_sha256'', is_active = True, is_staff = False\<rparr>"

definition alice :: user where
  "alice = \<lparr>username = PyUnicode (ascii ''alice''), email = PyUnicode (ascii ''alice@example.com''),
            password = ''pbkdf2_sha256'', is_active = True, is_staff = False\<rparr>"

definition carol :: user where
  "carol = \<lparr>username = PyUnicode (ascii ''carol''), email = PyUnicode (ascii ''carol@example.com''),
            password = ''pbkdf2_sha256'', is_active = True, is_staff = False\<rparr>"

definition ted_profile :: profile where
  "ted_profile = empty_profile\<lparr>name := PyUnicode (ascii ''Ted T'')\<rparr>"

definition alice_profile :: profile where
  "alice_profile = empty_profile\<lparr>name := PyUnicode (ascii ''Alice A'')\<rparr>"

text \<open>Three accounts; the third has no profile record yet.\<close>

definition sample_db :: db where
  "sample_db =
     \<lparr>users = [(1, ted), (2, alice), (3, carol)],
      profiles = [(1, ted_profile), (2, alice_profile)],
      registrations = [],
      user_preferences = [],
      emitted_events = [],
      email_change_requests = [],
      next_id = 4\<rparr>"

definition sample_site :: site_settings where
  "sample_site =
     \<lparr>site_ALLOW_PUBLIC_ACCOUNT_CREATION = None,
      FEATURES_ALLOW_PUBLIC_ACCOUNT_CREATION = None,
      FEATURES_ALLOW_EMAIL_ADDRESS_CHANGE = Some False,
      ACCOUNT_VISIBILITY_admin_fields = Some [''username'', ''email'']\<rparr>"

definition invalid_value :: field_error where
  "invalid_value =
     \<lparr>developer_message = ''Value is not valid for field'',
      user_message = ''This value is invalid.''\<rparr>"

definition sample_serializers :: serializers where
  "sample_serializers =
     \<lparr>user_read_only_fields = [''username'', ''email'', ''date_joined'', ''is_active''],
      profile_read_only_fields = [''profile_image'', ''requires_parental_consent''],
      user_serializer_errors = (\<lambda>u data. []),
      profile_serializer_errors =
        (\<lambda>p data. case map_of data ''year_of_birth'' of
                     None \<Rightarrow> []
                   | Some (PyInt y) \<Rightarrow> []
                   | Some v \<Rightarrow> [(''year_of_birth'', invalid_value)]),
      user_serializer_save = (\<lambda>u data. Inr u),
      profile_serializer_save =
        (\<lambda>p data. Inr (p\<lparr>name := (case map_of data ''name'' of None \<Rightarrow> name p | Some v \<Rightarrow> v)\<rparr>)),
      UserReadOnlySerializer =
        (\<lambda>viewer u p configuration custom_fields.
           (''username'', username u)
             # (if custom_fields = None then [] else [(''email'', email u)]))\<rparr>"

definition sample_collaborators :: collaborators where
  "sample_collaborators =
     \<lparr>validate_new_email =
        (\<lambda>d u v. if 64 \<in> set (py_text v) then None else Some ''Valid e-mail address required.''),
      do_email_change_request = (\<lambda>u v. None),
      update_user_preferences =
        (\<lambda>requester data target prefs.
           case map_of data ''account_privacy'' of
             Some (PyStr s) \<Rightarrow>
               if s = ''private'' \<or> s = ''all_users''
               then Inr (AList.update (fst target, ''account_privacy'') (PyStr s) prefs)
               else Inl (PreferenceValidationError [(''account_privacy'', invalid_value)])
           | _ \<Rightarrow> Inl (PreferenceValidationError [(''account_privacy'', invalid_value)])),
      make_password = (\<lambda>v. ''pbkdf2_sha256''),
      now_isoformat = ''2017-01-01T00:00:00+00:00'',
      new_activation_key = (\<lambda>d. ''0123456789abcdef0123456789abcdef'')\<rparr>"

text \<open>Updates submitted in the examples.\<close>

definition read_only_and_invalid_update :: "pyval dict" where
  "read_only_and_invalid_update =
     [(''username'', PyUnicode (ascii ''teddy'')), (''year_of_birth'', PyStr ''abc''),
      (''email'', PyStr ''not-an-email'')]"

definition rename_and_email_update :: "pyval dict" where
  "rename_and_email_update =
     [(''name'', PyUnicode (ascii ''Theodore'')), (''account_privacy'', PyStr ''private''),
      (''email'', PyStr ''new@example.com'')]"

definition bad_privacy_update :: "pyval dict" where
  "bad_privacy_update =
     [(''name'', PyUnicode (ascii ''Theodore'')), (''account_privacy'', PyStr ''public''),
      (''email'', PyStr ''new@example.com'')]"

text \<open>Serializers whose profile save fails with an exception of the storage layer.\<close>

definition failing_serializers :: serializers where
  "failing_serializers =
     sample_serializers
       \<lparr>profile_serializer_save := (\<lambda>p data. Inl (OtherException ''database is locked''))\<rparr>"

definition intruder_update :: "pyval dict" where
  "intruder_update = [(''name'', PyUnicode (ascii ''Mallory''))]"

section \<open>Notions of the specification\<close>

text \<open>A username or an email is taken when it is given and an account holds it.\<close>

definition username_taken :: "db \<Rightarrow> pyval \<Rightarrow> bool" where
  "username_taken d uname = (uname \<noteq> PyNone \<and> (\<exists>row \<in> set (users d). py_eq (username (snd row)) uname))"

definition email_taken :: "db \<Rightarrow> pyval \<Rightarrow> bool" where
  "email_taken d addr = (addr \<noteq> PyNone \<and> (\<exists>row \<in> set (users d). py_eq (email (snd row)) addr))"

text \<open>
  The stages of the specification, as properties of the value that is validated.
  Encoding well-formedness: the value is text, and a byte string decodes, that is, it
  holds no byte outside ASCII. Type check: the value is a string. Length bounds
  \<open>[min, max]\<close>: the length of the string is at least \<open>min\<close> and at most \<open>max\<close>.
\<close>

fun well_encoded :: "pyval \<Rightarrow> bool" where
  "well_encoded (PyStr s) = (\<forall>c \<in> set s. (of_char c :: nat) < 128)"
| "well_encoded (PyUnicode u) = True"
| "well_encoded v = False"

fun is_string :: "pyval \<Rightarrow> bool" where
  "is_string (PyStr s) = True"
| "is_string (PyUnicode u) = True"
| "is_string v = False"

fun length_within :: "int \<Rightarrow> int \<Rightarrow> pyval \<Rightarrow> bool" where
  "length_within lo hi (PyStr s) = (lo \<le> int (length s) \<and> int (length s) \<le> hi)"
| "length_within lo hi (PyUnicode u) = (lo \<le> int (length u) \<and> int (length u) \<le> hi)"
| "length_within lo hi v = False"

text \<open>
  The ordered pipeline of the specification. A stage is a check with the message of its
  failure; the stages run in order, the first stage that fails gives its message and
  the later ones are skipped; the error that leaves the validator is the validator's
  own typed error with that message.
\<close>

fun first_failing_stage :: "(bool \<times> string) list \<Rightarrow> string option" where
  "first_failing_stage [] = None"
| "first_failing_stage (stage # stages) =
     (if fst stage then first_failing_stage stages else Some (snd stage))"

definition run_pipeline :: "(string \<Rightarrow> exn) \<Rightarrow> (bool \<times> string) list \<Rightarrow> exn + unit" where
  "run_pipeline typed_error stages =
     (case first_failing_stage stages of None \<Rightarrow> Inr () | Some msg \<Rightarrow> Inl (typed_error msg))"

text \<open>
  The three validators as the specification words them: encoding well-formedness, type
  check, length bounds, format-specific check (the platform's username rule, the email
  format, the password not equal to the username).
\<close>

definition spec_validate_username :: "constants \<Rightarrow> format_checks \<Rightarrow> pyval \<Rightarrow> exn + unit" where
  "spec_validate_username C F v =
     run_pipeline AccountUsernameInvalid
       [(well_encoded v, ''Input not valid unicode''),
        (is_string v, USERNAME_BAD_TYPE_MSG C),
        (length_within (USERNAME_MIN_LENGTH C) (USERNAME_MAX_LENGTH C) v,
         USERNAME_BAD_LENGTH_MSG C),
        (forms_validate_username F v = None,
         (case forms_validate_username F v of None \<Rightarrow> [] | Some m \<Rightarrow> m))]"

definition spec_validate_email :: "constants \<Rightarrow> format_checks \<Rightarrow> pyval \<Rightarrow> exn + unit" where
  "spec_validate_email C F v =
     run_pipeline AccountEmailInvalid
       [(well_encoded v, ''Input not valid unicode''),
        (is_string v, EMAIL_BAD_TYPE_MSG C),
        (length_within (EMAIL_MIN_LENGTH C) (EMAIL_MAX_LENGTH C) v, EMAIL_BAD_LENGTH_MSG C),
        (django_validate_email F v, EMAIL_INVALID_MSG C v)]"

definition spec_validate_password :: "constants \<Rightarrow> pyval \<Rightarrow> pyval \<Rightarrow> exn + unit" where
  "spec_validate_password C v uname =
     run_pipeline AccountPasswordInvalid
       [(well_encoded v, ''Input not valid unicode''),
        (is_string v, PASSWORD_BAD_TYPE_MSG C),
        (length_within (PASSWORD_MIN_LENGTH C) (PASSWORD_MAX_LENGTH C) v,
         PASSWORD_BAD_LENGTH_MSG C),
        (\<not> py_eq v uname, PASSWORD_CANT_EQUAL_USERNAME_MSG C)]"

text \<open>The password pipeline without the encoding stage.\<close>

definition password_pipeline :: "constants \<Rightarrow> pyval \<Rightarrow> pyval \<Rightarrow> exn + unit" where
  "password_pipeline C v uname =
     run_pipeline AccountPasswordInvalid
       [(is_string v, PASSWORD_BAD_TYPE_MSG C),
        (length_within (PASSWORD_MIN_LENGTH C) (PASSWORD_MAX_LENGTH C) v,
         PASSWORD_BAD_LENGTH_MSG C),
        (\<not> py_eq v uname, PASSWORD_CANT_EQUAL_USERNAME_MSG C)]"

definition raises_AccountPasswordInvalid :: "exn + 'a \<Rightarrow> bool" where
  "raises_AccountPasswordInvalid r = (case r of Inl (AccountPasswordInvalid m) \<Rightarrow> True | _ \<Rightarrow> False)"

text \<open>
  The part of an update that reaches the serializers: the entries other than \<open>email\<close>
  whose field is not read-only.
\<close>

definition editable_update :: "serializers \<Rightarrow> pyval dict \<Rightarrow> pyval dict" where
  "editable_update Z update0 =
     filter (\<lambda>entry. fst entry \<noteq> ''email''
                     \<and> fst entry \<notin> set (user_read_only_fields Z @ profile_read_only_fields Z))
       update0"

text \<open>
  The failing fields of an update: the requested fields that are read-only (\<open>email\<close>
  apart, which is handled on its own), the fields rejected by the validation of the
  identity serializer and of the profile serializer, and \<open>email\<close> when the requested
  address fails \<open>validate_new_email\<close>.
\<close>

definition failing_fields ::
  "serializers \<Rightarrow> collaborators \<Rightarrow> db \<Rightarrow> user \<Rightarrow> profile \<Rightarrow> pyval dict \<Rightarrow> string list" where
  "failing_fields Z K d u p update0 =
     filter (\<lambda>f. f \<noteq> ''email'' \<and> has_key f update0)
       (user_read_only_fields Z @ profile_read_only_fields Z)
     @ map fst (user_serializer_errors Z u (editable_update Z update0))
     @ map fst (profile_serializer_errors Z p (editable_update Z update0))
     @ (case map_of update0 ''email'' of
          None \<Rightarrow> []
        | Some new_email \<Rightarrow>
            (case validate_new_email K d u new_email of None \<Rightarrow> [] | Some m \<Rightarrow> [''email'']))"

section \<open>Evaluation of the concrete instances\<close>

lemmas validator_defs = validate_username_def validate_email_def validate_password_def
  reraise_invalid_def and_then_def validate_unicode_def validate_type_def validate_length_def
  validate_password_works_with_username_def is_ascii_def ascii_def

lemmas fixture_defs = platform_constants_def simple_checks_def ted_def alice_def carol_def
  ted_profile_def alice_profile_def sample_db_def sample_site_def sample_serializers_def
  sample_collaborators_def empty_profile_def invalid_value_def

section \<open>Existence checks\<close>

text \<open>
  C3. \<open>check_account_exists\<close> never raises: it always returns a list. It returns the
  empty list when neither the username nor the email is taken, and exactly
  \<open>["email", "username"]\<close>, the email first, when both are taken.
\<close>

theorem check_account_exists_conflicts:
  "(\<exists>conflicts. check_account_exists C d uname addr = Inr conflicts)
   \<and> (\<not> username_taken d uname \<and> \<not> email_taken d addr
        \<longrightarrow> check_account_exists C d uname addr = Inr [])
   \<and> (username_taken d uname \<and> email_taken d addr
        \<longrightarrow> check_account_exists C d uname addr = Inr [''email'', ''username''])"
  by (simp add: check_account_exists_def validate_email_doesnt_exist_def
        validate_username_doesnt_exist_def username_taken_def email_taken_def list_ex_iff)

text \<open>
  The example of the docstring: with the account ted / ted@example.com in the store
  both fields conflict; the free name bob, with no email given, conflicts with nothing.
\<close>

theorem check_account_exists_conflicts_witness:
  "username_taken sample_db (PyStr ''ted'') \<and> email_taken sample_db (PyStr ''ted@example.com'')
   \<and> check_account_exists platform_constants sample_db (PyStr ''ted'') (PyStr ''ted@example.com'')
       = Inr [''email'', ''username'']
   \<and> \<not> username_taken sample_db (PyStr ''bob'') \<and> \<not> email_taken sample_db PyNone
   \<and> check_account_exists platform_constants sample_db (PyStr ''bob'') PyNone = Inr []"
proof -
  have taken: "username_taken sample_db (PyStr ''ted'')
               \<and> email_taken sample_db (PyStr ''ted@example.com'')"
    by (simp add: username_taken_def email_taken_def fixture_defs is_ascii_def ascii_def)
  have free: "\<not> username_taken sample_db (PyStr ''bob'') \<and> \<not> email_taken sample_db PyNone"
    by (simp add: username_taken_def email_taken_def fixture_defs is_ascii_def ascii_def)
  show ?thesis
    using taken free
      check_account_exists_conflicts [of platform_constants sample_db "PyStr ''ted''"
        "PyStr ''ted@example.com''"]
      check_account_exists_conflicts [of platform_constants sample_db "PyStr ''bob''" PyNone]
    by blast
qed

section \<open>The field validators\<close>

lemma validate_username_pipeline: "validate_username C F v = spec_validate_username C F v"
  by (cases v)
     (auto simp: validate_username_def spec_validate_username_def reraise_invalid_def
        and_then_def run_pipeline_def validate_unicode_def validate_type_def validate_length_def
        is_ascii_def list_all_iff split: option.splits)

lemma validate_email_pipeline: "validate_email C F v = spec_validate_email C F v"
  by (cases v)
     (auto simp: validate_email_def spec_validate_email_def reraise_invalid_def
        and_then_def run_pipeline_def validate_unicode_def validate_type_def validate_length_def
        is_ascii_def list_all_iff)

lemma validate_password_pipeline: "validate_password C v uname = password_pipeline C v uname"
  by (cases v)
     (auto simp: validate_password_def password_pipeline_def and_then_def run_pipeline_def
        validate_type_def validate_length_def validate_password_works_with_username_def)

lemma validate_password_equal:
  "py_eq passwd uname \<Longrightarrow> raises_AccountPasswordInvalid (validate_password C passwd uname)"
  by (cases passwd)
     (simp_all add: validate_password_def and_then_def validate_type_def validate_length_def
        validate_password_works_with_username_def raises_AccountPasswordInvalid_def)

lemma validate_username_outcome:
  "validate_username C F v = Inr ()
   \<or> (\<exists>m. validate_username C F v = Inl (AccountUsernameInvalid m))"
  unfolding validate_username_pipeline spec_validate_username_def run_pipeline_def
  by (simp split: option.splits)

text \<open>
  C6, as stated, fails for the password: a byte string that is no valid text and has an
  admissible length is accepted by \<open>_validate_password\<close>, which has no encoding stage,
  while the four-stage pipeline of the claim rejects it at its first stage.
\<close>

theorem validate_password_encoding_counterexample:
  "validate_password platform_constants (PyStr [CHR 0xFF, CHR 0xFE]) (PyUnicode (ascii ''bob''))
     = Inr ()
   \<and> spec_validate_password platform_constants (PyStr [CHR 0xFF, CHR 0xFE])
         (PyUnicode (ascii ''bob''))
       = Inl (AccountPasswordInvalid ''Input not valid unicode'')"
  by code_simp

text \<open>
  C6, amended. The username and the email validator run the ordered pipeline encoding
  well-formedness, type check, length bounds \<open>[min, max]\<close>, format check; the password
  validator runs the ordered pipeline type check, length bounds \<open>[min, max]\<close>, password
  not equal to username, with no encoding stage. Each raises its typed error, with the
  message of the stage, at the first failing stage and skips the later stages. The
  stages are the properties of the value defined above, not the functions of the code.
\<close>

theorem validators_run_ordered_pipeline:
  "validate_username C F v = spec_validate_username C F v
   \<and> validate_email C F v = spec_validate_email C F v
   \<and> validate_password C v uname = password_pipeline C v uname"
  using validate_username_pipeline validate_email_pipeline validate_password_pipeline by simp

text \<open>
  Each stage at work, with the platform's bounds: a byte string that does not decode, a
  username of one and of thirty-one characters, one with a space, an email without
  \<open>@\<close>, a password that is no string, one of seventy-six characters, one equal to the
  username; and three values that pass.
\<close>

theorem validators_run_ordered_pipeline_witness:
  "validate_username platform_constants simple_checks (PyStr [CHR 0xFF, CHR 0xFE])
     = Inl (AccountUsernameInvalid ''Input not valid unicode'')
   \<and> validate_username platform_constants simple_checks (PyInt 5)
     = Inl (AccountUsernameInvalid ''Input not valid unicode'')
   \<and> validate_username platform_constants simple_checks (PyUnicode (ascii ''t''))
     = Inl (AccountUsernameInvalid ''Username must be between 2 and 30 characters long.'')
   \<and> validate_username platform_constants simple_checks (PyUnicode (replicate 31 97))
     = Inl (AccountUsernameInvalid ''Username must be between 2 and 30 characters long.'')
   \<and> validate_username platform_constants simple_checks (PyUnicode (replicate 30 97)) = Inr ()
   \<and> validate_username platform_constants simple_checks (PyUnicode (ascii ''ted t''))
     = Inl (AccountUsernameInvalid ''Usernames must not contain spaces.'')
   \<and> validate_email platform_constants simple_checks (PyStr ''ted.example.com'')
     = Inl (AccountEmailInvalid ''Email is not in a valid format.'')
   \<and> validate_email platform_constants simple_checks (PyStr ''ted@example.com'') = Inr ()
   \<and> validate_password platform_constants (PyInt 5) (PyUnicode (ascii ''bob''))
     = Inl (AccountPasswordInvalid ''Password must be a string.'')
   \<and> validate_password platform_constants (PyUnicode (replicate 76 97)) (PyUnicode (ascii ''bob''))
     = Inl (AccountPasswordInvalid ''Password must be between 2 and 75 characters long.'')
   \<and> validate_password platform_constants (PyStr ''bob'') (PyUnicode (ascii ''bob''))
     = Inl (AccountPasswordInvalid ''Password cannot be the same as the username.'')
   \<and> validate_password platform_constants (PyStr ''s3cret'') (PyUnicode (ascii ''bob'')) = Inr ()"
proof -
  have u1: "spec_validate_username platform_constants simple_checks (PyStr [CHR 0xFF, CHR 0xFE])
              = Inl (AccountUsernameInvalid ''Input not valid unicode'')"
    by code_simp
  have u2: "spec_validate_username platform_constants simple_checks (PyInt 5)
              = Inl (AccountUsernameInvalid ''Input not valid unicode'')"
    by code_simp
  have u3: "spec_validate_username platform_constants simple_checks (PyUnicode (ascii ''t''))
              = Inl (AccountUsernameInvalid
                       ''Username must be between 2 and 30 characters long.'')"
    by code_simp
  have u4: "spec_validate_username platform_constants simple_checks (PyUnicode (replicate 31 97))
              = Inl (AccountUsernameInvalid
                       ''Username must be between 2 and 30 characters long.'')"
    by code_simp
  have u5: "spec_validate_username platform_constants simple_checks (PyUnicode (replicate 30 97))
              = Inr ()"
    by code_simp
  have u6: "spec_validate_username platform_constants simple_checks (PyUnicode (ascii ''ted t''))
              = Inl (AccountUsernameInvalid ''Usernames must not contain spaces.'')"
    by code_simp
  have e1: "spec_validate_email platform_constants simple_checks (PyStr ''ted.example.com'')
              = Inl (AccountEmailInvalid ''Email is not in a valid format.'')"
    by code_simp
  have e2: "spec_validate_email platform_constants simple_checks (PyStr ''ted@example.com'')
              = Inr ()"
    by code_simp
  have p1: "password_pipeline platform_constants (PyInt 5) (PyUnicode (ascii ''bob''))
              = Inl (AccountPasswordInvalid ''Password must be a string.'')"
    by code_simp
  have p2: "password_pipeline platform_constants (PyUnicode (replicate 76 97))
              (PyUnicode (ascii ''bob''))
              = Inl (AccountPasswordInvalid
                       ''Password must be between 2 and 75 characters long.'')"
    by code_simp
  have p3: "password_pipeline platform_constants (PyStr ''bob'') (PyUnicode (ascii ''bob''))
              = Inl (AccountPasswordInvalid ''Password cannot be the same as the username.'')"
    by code_simp
  have p4: "password_pipeline platform_constants (PyStr ''s3cret'') (PyUnicode (ascii ''bob''))
              = Inr ()"
    by code_simp
  note pipeline = validators_run_ordered_pipeline [of platform_constants simple_checks]
  show ?thesis
    by (simp only: pipeline u1 u2 u3 u4 u5 u6 e1 e2 p1 p2 p3 p4 simp_thms)
qed

section \<open>Creating an account\<close>

text \<open>
  C8. When the setting \<open>ALLOW_PUBLIC_ACCOUNT_CREATION\<close> resolves to false,
  \<open>create_account\<close> answers with the forbidden response, returns no activation key and
  leaves the store as it was: no identity, registration or profile record is created.
\<close>

theorem create_account_forbidden:
  "\<not> public_account_creation_allowed S \<Longrightarrow>
     create_account C F S K d uname passwd addr =
       (Inr (HttpResponseForbidden ''Account creation not allowed.''), d)"
  by (simp add: create_account_def create_account_body_def transaction_atomic_def
        intercept_errors_def)

theorem create_account_forbidden_witness:
  "\<not> public_account_creation_allowed
        (sample_site\<lparr>site_ALLOW_PUBLIC_ACCOUNT_CREATION := Some False\<rparr>)
   \<and> create_account platform_constants simple_checks
        (sample_site\<lparr>site_ALLOW_PUBLIC_ACCOUNT_CREATION := Some False\<rparr>)
        sample_collaborators sample_db
        (PyUnicode (ascii ''bob'')) (PyUnicode (ascii ''s3cret''))
        (PyUnicode (ascii ''bob@example.com''))
      = (Inr (HttpResponseForbidden ''Account creation not allowed.''), sample_db)"
proof -
  have off: "\<not> public_account_creation_allowed
                 (sample_site\<lparr>site_ALLOW_PUBLIC_ACCOUNT_CREATION := Some False\<rparr>)"
    by (simp add: public_account_creation_allowed_def get_value_def sample_site_def)
  from create_account_forbidden [OF off] off show ?thesis by simp
qed

text \<open>
  C5, as stated, fails: the username is validated before the password, so an empty
  username with an equal (empty) password is rejected as an invalid username, and not
  with a password error; and when public account creation is disabled the function
  returns the forbidden response and raises nothing.
\<close>

theorem create_account_password_equals_username_counterexample:
  "py_eq (PyUnicode []) (PyUnicode [])
   \<and> create_account platform_constants simple_checks sample_site sample_collaborators sample_db
        (PyUnicode []) (PyUnicode []) (PyUnicode (ascii ''bob@example.com''))
      = (Inl (AccountUsernameInvalid ''Username must be between 2 and 30 characters long.''),
         sample_db)
   \<and> \<not> raises_AccountPasswordInvalid
         (fst (create_account platform_constants simple_checks sample_site sample_collaborators
                 sample_db (PyUnicode []) (PyUnicode []) (PyUnicode (ascii ''bob@example.com''))))
   \<and> py_eq (PyUnicode (ascii ''bob'')) (PyUnicode (ascii ''bob''))
   \<and> \<not> raises_AccountPasswordInvalid
         (fst (create_account platform_constants simple_checks
                 (sample_site\<lparr>site_ALLOW_PUBLIC_ACCOUNT_CREATION := Some False\<rparr>)
                 sample_collaborators sample_db (PyUnicode (ascii ''bob''))
                 (PyUnicode (ascii ''bob'')) (PyUnicode (ascii ''bob@example.com''))))"
  by code_simp

text \<open>
  C5, amended. The password validator raises \<open>AccountPasswordInvalid\<close> whenever the
  password equals the username, whatever its type and length. For \<open>create_account\<close>
  with a password equal to the username: when public account creation is allowed and the
  username passes the username validator, the call fails with \<open>AccountPasswordInvalid\<close>
  and creates nothing; when public account creation is allowed and the username fails
  the username validator, the call fails with the \<open>AccountUsernameInvalid\<close> error of
  that validator and creates nothing; when public account creation is not allowed, the
  call returns the forbidden response and creates nothing.
\<close>

theorem create_account_password_equals_username:
  assumes "py_eq passwd uname"
  shows "raises_AccountPasswordInvalid (validate_password C passwd uname)
         \<and> (public_account_creation_allowed S \<and> validate_username C F uname = Inr ()
              \<longrightarrow> raises_AccountPasswordInvalid
                    (fst (create_account C F S K d uname passwd addr))
                  \<and> snd (create_account C F S K d uname passwd addr) = d)
         \<and> (public_account_creation_allowed S \<and> validate_username C F uname \<noteq> Inr ()
              \<longrightarrow> (\<exists>m. validate_username C F uname = Inl (AccountUsernameInvalid m)
                       \<and> create_account C F S K d uname passwd addr
                           = (Inl (AccountUsernameInvalid m), d)))
         \<and> (\<not> public_account_creation_allowed S
              \<longrightarrow> create_account C F S K d uname passwd addr
                    = (Inr (HttpResponseForbidden ''Account creation not allowed.''), d))"
proof -
  have pw: "raises_AccountPasswordInvalid (validate_password C passwd uname)"
    using assms by (rule validate_password_equal)
  then obtain m where m: "validate_password C passwd uname = Inl (AccountPasswordInvalid m)"
    by (auto simp: raises_AccountPasswordInvalid_def split: sum.splits exn.splits)
  have valid_name: "raises_AccountPasswordInvalid
                      (fst (create_account C F S K d uname passwd addr))
                    \<and> snd (create_account C F S K d uname passwd addr) = d"
    if "public_account_creation_allowed S" and "validate_username C F uname = Inr ()"
    using that m
    by (simp add: create_account_def create_account_body_def transaction_atomic_def
          intercept_errors_def and_then_def raises_AccountPasswordInvalid_def)
  have invalid_name: "\<exists>m. validate_username C F uname = Inl (AccountUsernameInvalid m)
                          \<and> create_account C F S K d uname passwd addr
                              = (Inl (AccountUsernameInvalid m), d)"
    if allowed: "public_account_creation_allowed S"
      and invalid: "validate_username C F uname \<noteq> Inr ()"
  proof -
    obtain n where n: "validate_username C F uname = Inl (AccountUsernameInvalid n)"
      using validate_username_outcome [of C F uname] invalid by blast
    have "create_account C F S K d uname passwd addr = (Inl (AccountUsernameInvalid n), d)"
      using allowed n
      by (simp add: create_account_def create_account_body_def transaction_atomic_def
            intercept_errors_def and_then_def)
    with n show ?thesis by blast
  qed
  have forbidden: "create_account C F S K d uname passwd addr
                     = (Inr (HttpResponseForbidden ''Account creation not allowed.''), d)"
    if "\<not> public_account_creation_allowed S"
    using that
    by (simp add: create_account_def create_account_body_def transaction_atomic_def
          intercept_errors_def)
  show ?thesis
    using pw valid_name invalid_name forbidden by blast
qed

text \<open>
  The three cases of \<open>create_account\<close>: the valid username bob with the password bob,
  the empty username with the empty password, and bob / bob with creation disabled.
\<close>

theorem create_account_password_equals_username_witness:
  "py_eq (PyStr ''bob'') (PyUnicode (ascii ''bob''))
   \<and> public_account_creation_allowed sample_site
   \<and> validate_username platform_constants simple_checks (PyUnicode (ascii ''bob'')) = Inr ()
   \<and> raises_AccountPasswordInvalid
         (validate_password platform_constants (PyStr ''bob'') (PyUnicode (ascii ''bob'')))
   \<and> raises_AccountPasswordInvalid
         (fst (create_account platform_constants simple_checks sample_site sample_collaborators
                 sample_db (PyUnicode (ascii ''bob'')) (PyStr ''bob'')
                 (PyUnicode (ascii ''bob@example.com''))))
   \<and> snd (create_account platform_constants simple_checks sample_site sample_collaborators
             sample_db (PyUnicode (ascii ''bob'')) (PyStr ''bob'')
             (PyUnicode (ascii ''bob@example.com''))) = sample_db
   \<and> py_eq (PyUnicode []) (PyUnicode [])
   \<and> validate_username platform_constants simple_checks (PyUnicode []) \<noteq> Inr ()
   \<and> (\<exists>m. validate_username platform_constants simple_checks (PyUnicode [])
              = Inl (AccountUsernameInvalid m)
            \<and> create_account platform_constants simple_checks sample_site sample_collaborators
                sample_db (PyUnicode []) (PyUnicode []) (PyUnicode (ascii ''bob@example.com''))
              = (Inl (AccountUsernameInvalid m), sample_db))
   \<and> \<not> public_account_creation_allowed
          (sample_site\<lparr>site_ALLOW_PUBLIC_ACCOUNT_CREATION := Some False\<rparr>)
   \<and> create_account platform_constants simple_checks
        (sample_site\<lparr>site_ALLOW_PUBLIC_ACCOUNT_CREATION := Some False\<rparr>) sample_collaborators
        sample_db (PyUnicode (ascii ''bob'')) (PyStr ''bob'')
        (PyUnicode (ascii ''bob@example.com''))
      = (Inr (HttpResponseForbidden ''Account creation not allowed.''), sample_db)"
proof -
  have eq: "py_eq (PyStr ''bob'') (PyUnicode (ascii ''bob''))"
    by code_simp
  have eq': "py_eq (PyUnicode []) (PyUnicode [])"
    by simp
  have allowed: "public_account_creation_allowed sample_site"
    by code_simp
  have off: "\<not> public_account_creation_allowed
                 (sample_site\<lparr>site_ALLOW_PUBLIC_ACCOUNT_CREATION := Some False\<rparr>)"
    by code_simp
  have valid: "validate_username platform_constants simple_checks (PyUnicode (ascii ''bob''))
                 = Inr ()"
    by code_simp
  have invalid: "validate_username platform_constants simple_checks (PyUnicode []) \<noteq> Inr ()"
    by code_simp
  note bob = create_account_password_equals_username [OF eq, of platform_constants sample_site
        simple_checks sample_collaborators sample_db "PyUnicode (ascii ''bob@example.com'')"]
  note empty = create_account_password_equals_username [OF eq', of platform_constants
        sample_site simple_checks sample_collaborators sample_db
        "PyUnicode (ascii ''bob@example.com'')"]
  note refused = create_account_password_equals_username [OF eq, of platform_constants
        "sample_site\<lparr>site_ALLOW_PUBLIC_ACCOUNT_CREATION := Some False\<rparr>"
        simple_checks sample_collaborators sample_db "PyUnicode (ascii ''bob@example.com'')"]
  show ?thesis
    using bob empty refused eq eq' allowed off valid invalid by blast
qed

section \<open>Reading accounts\<close>

text \<open>
  C7, as stated, fails: the views follow the rows of the identity store, not the input
  list. Asked for alice, an unknown name and ted, the function returns two views for
  three names, ted's before alice's.
\<close>

theorem get_account_settings_views_counterexample:
  "get_account_settings sample_site sample_serializers sample_db alice
     (Some [PyStr ''alice'', PyStr ''ghost'', PyStr ''ted'']) PyNone PyNone
     = Inr [[(''username'', PyUnicode (ascii ''ted''))],
            [(''username'', PyUnicode (ascii ''alice'')),
             (''email'', PyUnicode (ascii ''alice@example.com''))]]
   \<and> length [[(''username'', PyUnicode (ascii ''ted''))],
              [(''username'', PyUnicode (ascii ''alice'')),
               (''email'', PyUnicode (ascii ''alice@example.com''))]]
       \<noteq> length [PyStr ''alice'', PyStr ''ghost'', PyStr ''ted'']"
  by code_simp

text \<open>
  C7, amended. For a non-empty list of requested usernames, \<open>get_account_settings\<close>
  raises \<open>UserNotFound\<close> exactly when no requested username is the username of a stored
  account; otherwise it returns the filtered view of every stored account whose username
  is among the requested ones, once each and in the order of the store: a requested name
  that resolves to no account contributes no view.
\<close>

theorem get_account_settings_views:
  assumes "usernames \<noteq> []"
  shows "(get_account_settings S Z d requesting_user (Some usernames) configuration view
            = Inl UserNotFound
          \<longleftrightarrow> \<not> (\<exists>row \<in> set (users d). \<exists>n \<in> set usernames. py_eq (username (snd row)) n))
         \<and> ((\<exists>row \<in> set (users d). \<exists>n \<in> set usernames. py_eq (username (snd row)) n)
            \<longrightarrow> get_account_settings S Z d requesting_user (Some usernames) configuration view
                  = Inr (map (account_view_for S Z d requesting_user configuration view)
                          (filter (\<lambda>row. \<exists>n \<in> set usernames. py_eq (username (snd row)) n)
                             (users d))))"
proof -
  obtain n ns where ns: "usernames = n # ns"
    using assms by (cases usernames) auto
  show ?thesis
    unfolding ns
    by (auto simp: get_account_settings_def Let_def intercept_errors_def filter_empty_conv
          list_ex_iff)
qed

theorem get_account_settings_views_witness:
  "[PyStr ''alice'', PyStr ''ghost'', PyStr ''ted''] \<noteq> []
   \<and> (\<exists>row \<in> set (users sample_db).
         \<exists>n \<in> set [PyStr ''alice'', PyStr ''ghost'', PyStr ''ted'']. py_eq (username (snd row)) n)
   \<and> get_account_settings sample_site sample_serializers sample_db alice
        (Some [PyStr ''alice'', PyStr ''ghost'', PyStr ''ted'']) PyNone PyNone
      = Inr (map (account_view_for sample_site sample_serializers sample_db alice PyNone PyNone)
               [(1, ted), (2, alice)])
   \<and> [PyStr ''ghost''] \<noteq> []
   \<and> \<not> (\<exists>row \<in> set (users sample_db). \<exists>n \<in> set [PyStr ''ghost'']. py_eq (username (snd row)) n)
   \<and> get_account_settings sample_site sample_serializers sample_db alice
        (Some [PyStr ''ghost'']) PyNone PyNone = Inl UserNotFound"
proof -
  have asked: "[PyStr ''alice'', PyStr ''ghost'', PyStr ''ted''] \<noteq> []" by simp
  have some: "\<exists>row \<in> set (users sample_db).
                \<exists>n \<in> set [PyStr ''alice'', PyStr ''ghost'', PyStr ''ted''].
                  py_eq (username (snd row)) n"
    by code_simp
  have rows: "filter (\<lambda>row. \<exists>n \<in> set [PyStr ''alice'', PyStr ''ghost'', PyStr ''ted''].
                              py_eq (username (snd row)) n) (users sample_db)
                = [(1, ted), (2, alice)]"
    by code_simp
  have asked': "[PyStr ''ghost''] \<noteq> []" by simp
  have nobody: "\<not> (\<exists>row \<in> set (users sample_db).
                     \<exists>n \<in> set [PyStr ''ghost'']. py_eq (username (snd row)) n)"
    by code_simp
  from get_account_settings_views [OF asked, of sample_site sample_serializers sample_db alice
         PyNone PyNone]
       get_account_settings_views [OF asked', of sample_site sample_serializers sample_db alice
         PyNone PyNone]
       asked some rows asked' nobody
  show ?thesis by simp
qed

section \<open>The validation phase of an update\<close>

lemma delete_as_filter: "AList.delete k al = filter (\<lambda>entry. fst entry \<noteq> k) al"
  by (induction al) (auto simp: AList.delete_eq)

lemma has_key_iff: "has_key k al \<longleftrightarrow> k \<in> fst ` set al"
  by (simp add: has_key_def map_of_eq_None_iff)

lemma has_key_delete: "has_key f (AList.delete k al) = (f \<noteq> k \<and> has_key f al)"
  by (auto simp: has_key_def AList.delete_conv')

lemma snd_reject_read_only: "snd (reject_read_only f acc) = AList.delete f (snd acc)"
  by (simp add: reject_read_only_def)

lemma keys_reject_read_only:
  "fst ` set (fst (reject_read_only f acc)) = insert f (fst ` set (fst acc))"
  by (simp add: reject_read_only_def AList.dom_update)

lemma fold_reject_read_only_snd:
  "snd (fold reject_read_only fs acc) = filter (\<lambda>entry. fst entry \<notin> set fs) (snd acc)"
proof (induction fs arbitrary: acc)
  case Nil
  then show ?case by simp
next
  case (Cons f fs)
  have "snd (fold reject_read_only (f # fs) acc) =
          filter (\<lambda>entry. fst entry \<notin> set fs) (AList.delete f (snd acc))"
    using Cons.IH [of "reject_read_only f acc"] by (simp add: snd_reject_read_only)
  also have "\<dots> = filter (\<lambda>entry. fst entry \<notin> set (f # fs)) (snd acc)"
    by (simp add: delete_as_filter conj_commute)
  finally show ?case .
qed

lemma fold_reject_read_only_keys:
  "fst ` set (fst (fold reject_read_only fs acc)) = fst ` set (fst acc) \<union> set fs"
proof (induction fs arbitrary: acc)
  case Nil
  then show ?case by simp
next
  case (Cons f fs)
  show ?case
    using Cons.IH [of "reject_read_only f acc"]
    by (simp add: keys_reject_read_only)
qed

lemma add_serializer_errors_keys:
  "fst ` set (add_serializer_errors errors fe) = fst ` set fe \<union> fst ` set errors"
  unfolding add_serializer_errors_def
proof (induction errors arbitrary: fe)
  case Nil
  then show ?case by simp
next
  case (Cons e es)
  show ?case
    using Cons.IH [of "AList.update (fst e) (snd e) fe"]
    by (simp add: AList.dom_update)
qed

lemma filter_unrequested:
  "filter (\<lambda>entry. fst entry \<notin> {f \<in> R. has_key f al}) al = filter (\<lambda>entry. fst entry \<notin> R) al"
proof (rule filter_cong [OF refl])
  fix entry assume "entry \<in> set al"
  then have "has_key (fst entry) al"
    by (simp add: has_key_iff)
  then show "(fst entry \<notin> {f \<in> R. has_key f al}) = (fst entry \<notin> R)" by simp
qed

lemma collect_field_errors_update:
  "snd (collect_field_errors Z K d u p update0) = editable_update Z update0"
proof -
  let ?R = "set (user_read_only_fields Z @ profile_read_only_fields Z)"
  let ?u1 = "AList.delete ''email'' update0"
  have "snd (collect_field_errors Z K d u p update0) =
          filter (\<lambda>entry. fst entry \<notin> {f \<in> ?R. has_key f ?u1}) ?u1"
    by (simp add: collect_field_errors_def Let_def fold_reject_read_only_snd)
  also have "\<dots> = filter (\<lambda>entry. fst entry \<notin> ?R) ?u1"
    by (rule filter_unrequested)
  also have "\<dots> = editable_update Z update0"
    by (simp add: editable_update_def delete_as_filter conj_commute)
  finally show ?thesis .
qed

lemma collect_field_errors_keys:
  "fst ` set (fst (collect_field_errors Z K d u p update0)) = set (failing_fields Z K d u p update0)"
proof -
  let ?u1 = "AList.delete ''email'' update0"
  let ?fs = "filter (\<lambda>f. has_key f ?u1)
               (remdups (user_read_only_fields Z @ profile_read_only_fields Z))"
  define acc where "acc = fold reject_read_only ?fs ([], ?u1)"
  define fe1 where "fe1 =
     add_serializer_errors (profile_serializer_errors Z p (editable_update Z update0))
       (add_serializer_errors (user_serializer_errors Z u (editable_update Z update0)) (fst acc))"
  have u2: "snd acc = editable_update Z update0"
    using collect_field_errors_update [of Z K d u p update0]
    by (simp add: collect_field_errors_def Let_def acc_def)
  have k0: "fst ` set (fst acc) = set ?fs"
    by (simp add: acc_def fold_reject_read_only_keys)
  have k1: "fst ` set fe1 =
              set ?fs \<union> fst ` set (user_serializer_errors Z u (editable_update Z update0))
                \<union> fst ` set (profile_serializer_errors Z p (editable_update Z update0))"
    by (simp add: fe1_def add_serializer_errors_keys k0)
  have cfe: "fst (collect_field_errors Z K d u p update0) =
               (case map_of update0 ''email'' of
                  None \<Rightarrow> fe1
                | Some new_email \<Rightarrow>
                    (case validate_new_email K d u new_email of
                       None \<Rightarrow> fe1
                     | Some m \<Rightarrow>
                         AList.update ''email''
                           \<lparr>developer_message = ''Error thrown from validate_new_email: '' @ quoted m,
                            user_message = m\<rparr> fe1))"
    unfolding collect_field_errors_def Let_def fe1_def u2 [symmetric] acc_def by simp
  show ?thesis
    unfolding cfe failing_fields_def
    by (auto simp: k1 AList.dom_update has_key_delete split: option.splits)
qed

lemma collect_field_errors_empty:
  "fst (collect_field_errors Z K d u p update0) = [] \<longleftrightarrow> failing_fields Z K d u p update0 = []"
  using collect_field_errors_keys [of Z K d u p update0]
  by (metis image_is_empty set_empty)

section \<open>Updating an account\<close>

lemma get_or_create_profile_store:
  "get_or_create_profile d uid = (p, d1) \<Longrightarrow>
     d1 = (if map_of (profiles d) uid = None
           then d\<lparr>profiles := AList.update uid empty_profile (profiles d)\<rparr> else d)"
  by (auto simp: get_or_create_profile_def split: option.splits)

lemma get_or_create_profile_exists:
  "get_or_create_profile d uid = (p, d1) \<Longrightarrow> map_of (profiles d1) uid = Some p"
  by (auto simp: get_or_create_profile_def AList.update_conv' split: option.splits)

lemma update_body_same_user:
  assumes "objects_get d (target_username requesting_user username_arg) = Inr existing_user"
      and "py_eq (username requesting_user) (target_username requesting_user username_arg)"
      and "get_or_create_profile d (fst existing_user) = (p, d1)"
  shows "update_account_settings_body S Z K d requesting_user update0 username_arg =
     (if fst (collect_field_errors Z K d1 (snd existing_user) p update0) \<noteq> []
      then (Inl (AccountValidationError
                   (fst (collect_field_errors Z K d1 (snd existing_user) p update0))), d1)
      else
        (case save_account_updates Z K d1 requesting_user existing_user p
                (editable_update Z update0)
                (if has_key ''name'' (AList.delete ''email'' update0) then name p else PyNone) of
           (Inl (PreferenceValidationError preference_errors), d2) \<Rightarrow>
             (Inl (AccountValidationError preference_errors), d2)
         | (Inl e, d2) \<Rightarrow>
             (Inl (AccountUpdateError
                     (''Error thrown when saving account updates: '' @ quoted (message e)) None),
              d2)
         | (Inr saved_user, d2) \<Rightarrow>
             (case map_of update0 ''email'' of
                None \<Rightarrow> (Inr (), d2)
              | Some new_email \<Rightarrow>
                  request_email_change S K d2 (fst existing_user, saved_user) new_email)))"
  using assms
  by (simp add: update_account_settings_body_def get_user_and_profile_def Let_def
        collect_field_errors_update)

lemma update_body_other_user:
  assumes "objects_get d (target_username requesting_user username_arg) = Inr existing_user"
      and "\<not> py_eq (username requesting_user) (target_username requesting_user username_arg)"
  shows "update_account_settings_body S Z K d requesting_user update0 username_arg =
           (Inl UserNotAuthorized, snd (get_or_create_profile d (fst existing_user)))"
  using assms
  by (simp add: update_account_settings_body_def get_user_and_profile_def Let_def
        split: prod.splits)

lemma update_body_no_user:
  assumes "objects_get d (target_username requesting_user username_arg) = Inl DoesNotExist"
  shows "update_account_settings_body S Z K d requesting_user update0 username_arg =
           (Inl UserNotFound, d)"
  using assms
  by (simp add: update_account_settings_body_def get_user_and_profile_def Let_def)

text \<open>
  C1. When the target user submits an update and the validation finds a failing field (a
  requested read-only field, a field rejected by the identity or the profile serializer,
  a requested email that fails \<open>validate_new_email\<close>), \<open>update_account_settings\<close>
  raises one \<open>AccountValidationError\<close> whose error dictionary has an entry for exactly
  the failing fields, and nothing requested is persisted: the store is the one left by
  the lookup of the account, which differs from the initial store at most by the empty
  profile created for an identity that had none.
\<close>

theorem update_rejected_on_field_errors:
  assumes "objects_get d (target_username requesting_user username_arg) = Inr existing_user"
      and "py_eq (username requesting_user) (target_username requesting_user username_arg)"
      and "get_or_create_profile d (fst existing_user) = (existing_user_profile, d1)"
      and "failing_fields Z K d1 (snd existing_user) existing_user_profile update0 \<noteq> []"
  shows "(\<exists>field_errors.
            update_account_settings S Z K d requesting_user update0 username_arg
              = (Inl (AccountValidationError field_errors), d1)
            \<and> fst ` set field_errors
                = set (failing_fields Z K d1 (snd existing_user) existing_user_profile update0))
         \<and> d1 = (if map_of (profiles d) (fst existing_user) = None
                 then d\<lparr>profiles := AList.update (fst existing_user) empty_profile (profiles d)\<rparr>
                 else d)"
proof -
  let ?fe = "fst (collect_field_errors Z K d1 (snd existing_user) existing_user_profile update0)"
  have nonempty: "?fe \<noteq> []"
    using assms(4) by (simp add: collect_field_errors_empty)
  have "update_account_settings_body S Z K d requesting_user update0 username_arg
          = (Inl (AccountValidationError ?fe), d1)"
    using update_body_same_user [OF assms(1-3)] nonempty by simp
  then have "update_account_settings S Z K d requesting_user update0 username_arg
          = (Inl (AccountValidationError ?fe), d1)"
    by (simp add: update_account_settings_def intercept_errors_def)
  moreover have "fst ` set ?fe
      = set (failing_fields Z K d1 (snd existing_user) existing_user_profile update0)"
    by (rule collect_field_errors_keys)
  ultimately show ?thesis
    using get_or_create_profile_store [OF assms(3)] by blast
qed

text \<open>
  An update with a read-only field, an invalid year of birth and an invalid email: one
  error with the three entries, and the store untouched.
\<close>

theorem update_rejected_on_field_errors_witness:
  "objects_get sample_db (target_username ted PyNone) = Inr (1, ted)
   \<and> py_eq (username ted) (target_username ted PyNone)
   \<and> get_or_create_profile sample_db 1 = (ted_profile, sample_db)
   \<and> failing_fields sample_serializers sample_collaborators sample_db ted ted_profile
        read_only_and_invalid_update = [''username'', ''year_of_birth'', ''email'']
   \<and> (\<exists>field_errors.
         update_account_settings sample_site sample_serializers sample_collaborators sample_db
           ted read_only_and_invalid_update PyNone
           = (Inl (AccountValidationError field_errors), sample_db)
         \<and> fst ` set field_errors = {''username'', ''year_of_birth'', ''email''})"
proof -
  have found: "objects_get sample_db (target_username ted PyNone) = Inr (1, ted)"
    by code_simp
  have same: "py_eq (username ted) (target_username ted PyNone)"
    by code_simp
  have prof: "get_or_create_profile sample_db (fst (1::nat, ted)) = (ted_profile, sample_db)"
    by code_simp
  have failing: "failing_fields sample_serializers sample_collaborators sample_db
                   (snd (1::nat, ted)) ted_profile read_only_and_invalid_update
                 = [''username'', ''year_of_birth'', ''email'']"
    by code_simp
  then have some: "failing_fields sample_serializers sample_collaborators sample_db
                   (snd (1::nat, ted)) ted_profile read_only_and_invalid_update \<noteq> []"
    by simp
  from update_rejected_on_field_errors [OF found same prof some, of sample_site]
    found same prof failing
  show ?thesis by auto
qed

text \<open>
  C2, as stated, fails twice: for a target that does not exist the error is
  \<open>UserNotFound\<close>, and for an existing target without profile the refused call has
  created the profile record.
\<close>

theorem update_by_other_user_counterexample:
  "\<not> py_eq (username alice) (target_username alice (PyUnicode (ascii ''ghost'')))
   \<and> update_account_settings sample_site sample_serializers sample_collaborators sample_db
        alice intruder_update (PyUnicode (ascii ''ghost''))
      = (Inl UserNotFound, sample_db)
   \<and> \<not> py_eq (username alice) (target_username alice (PyUnicode (ascii ''carol'')))
   \<and> map_of (profiles sample_db) 3 = None
   \<and> map_of (profiles (snd (update_account_settings sample_site sample_serializers
                               sample_collaborators sample_db alice intruder_update
                               (PyUnicode (ascii ''carol''))))) 3
      = Some empty_profile"
  by code_simp

text \<open>
  C2, amended. When the target username differs from the requesting user's username:
  if the target resolves to an identity record, \<open>update_account_settings\<close> fails with
  \<open>UserNotAuthorized\<close>, and the store is unchanged except that an empty profile record
  is created for the target when it had none; if no identity record has the target
  username, it fails with \<open>UserNotFound\<close> and the store is unchanged.
\<close>

theorem update_by_other_user:
  assumes "\<not> py_eq (username requesting_user) (target_username requesting_user username_arg)"
  shows "(\<forall>existing_user.
            objects_get d (target_username requesting_user username_arg) = Inr existing_user
            \<longrightarrow> update_account_settings S Z K d requesting_user update0 username_arg
                  = (Inl UserNotAuthorized,
                     (if map_of (profiles d) (fst existing_user) = None
                      then d\<lparr>profiles :=
                               AList.update (fst existing_user) empty_profile (profiles d)\<rparr>
                      else d)))
         \<and> (objects_get d (target_username requesting_user username_arg) = Inl DoesNotExist
            \<longrightarrow> update_account_settings S Z K d requesting_user update0 username_arg
                  = (Inl UserNotFound, d))"
proof (intro conjI allI impI)
  fix existing_user
  assume r: "objects_get d (target_username requesting_user username_arg) = Inr existing_user"
  obtain p d1 where g: "get_or_create_profile d (fst existing_user) = (p, d1)"
    by (cases "get_or_create_profile d (fst existing_user)")
  show "update_account_settings S Z K d requesting_user update0 username_arg
          = (Inl UserNotAuthorized,
             (if map_of (profiles d) (fst existing_user) = None
              then d\<lparr>profiles := AList.update (fst existing_user) empty_profile (profiles d)\<rparr>
              else d))"
    using update_body_other_user [OF r assms] g get_or_create_profile_store [OF g]
    by (simp add: update_account_settings_def intercept_errors_def)
next
  assume "objects_get d (target_username requesting_user username_arg) = Inl DoesNotExist"
  then show "update_account_settings S Z K d requesting_user update0 username_arg
               = (Inl UserNotFound, d)"
    by (simp add: update_body_no_user update_account_settings_def intercept_errors_def)
qed

theorem update_by_other_user_witness:
  "\<not> py_eq (username alice) (target_username alice (PyUnicode (ascii ''carol'')))
   \<and> objects_get sample_db (target_username alice (PyUnicode (ascii ''carol''))) = Inr (3, carol)
   \<and> update_account_settings sample_site sample_serializers sample_collaborators sample_db
        alice intruder_update (PyUnicode (ascii ''carol''))
      = (Inl UserNotAuthorized,
         sample_db\<lparr>profiles := AList.update 3 empty_profile (profiles sample_db)\<rparr>)
   \<and> \<not> py_eq (username alice) (target_username alice (PyUnicode (ascii ''ghost'')))
   \<and> objects_get sample_db (target_username alice (PyUnicode (ascii ''ghost'')))
      = Inl DoesNotExist
   \<and> update_account_settings sample_site sample_serializers sample_collaborators sample_db
        alice intruder_update (PyUnicode (ascii ''ghost''))
      = (Inl UserNotFound, sample_db)"
proof -
  have other: "\<not> py_eq (username alice) (target_username alice (PyUnicode (ascii ''carol'')))"
    by code_simp
  have found: "objects_get sample_db (target_username alice (PyUnicode (ascii ''carol'')))
                 = Inr (3, carol)"
    by code_simp
  have no_profile: "map_of (profiles sample_db) (fst (3::nat, carol)) = None"
    by code_simp
  have other': "\<not> py_eq (username alice) (target_username alice (PyUnicode (ascii ''ghost'')))"
    by code_simp
  have missing: "objects_get sample_db (target_username alice (PyUnicode (ascii ''ghost'')))
                   = Inl DoesNotExist"
    by code_simp
  from update_by_other_user [OF other, of sample_db sample_site sample_serializers
         sample_collaborators intruder_update]
       update_by_other_user [OF other', of sample_db sample_site sample_serializers
         sample_collaborators intruder_update]
       other found no_profile other' missing
  show ?thesis by simp
qed

lemma save_account_updates_profile_kept:
  "map_of (profiles d) (fst existing_user) \<noteq> None \<Longrightarrow>
     map_of (profiles (snd (save_account_updates Z K d requesting_user existing_user p
                              update2 old_name))) (fst existing_user) \<noteq> None"
  by (auto simp: save_account_updates_def Let_def save_user_def save_profile_def
        emit_setting_changed_event_def AList.update_conv' split: sum.splits option.splits)

lemma request_email_change_profiles:
  "profiles (snd (request_email_change S K d existing_user new_email)) = profiles d"
  by (auto simp: request_email_change_def split: option.splits bool.splits)

text \<open>
  C10. Whenever the target username resolves to an identity record, a profile record
  exists for that identity after \<open>update_account_settings\<close>, whatever the outcome of
  the call: the profile is looked up or created before the authorization and validation
  checks, and no later step removes it.
\<close>

theorem profile_exists_after_update:
  assumes "objects_get d (target_username requesting_user username_arg) = Inr existing_user"
  shows "map_of (profiles (snd (update_account_settings S Z K d requesting_user update0
                                  username_arg))) (fst existing_user) \<noteq> None"
proof -
  obtain p d1 where g: "get_or_create_profile d (fst existing_user) = (p, d1)"
    by (cases "get_or_create_profile d (fst existing_user)")
  have d1: "map_of (profiles d1) (fst existing_user) \<noteq> None"
    using get_or_create_profile_exists [OF g] by simp
  have snd_eq: "snd (update_account_settings S Z K d requesting_user update0 username_arg)
                  = snd (update_account_settings_body S Z K d requesting_user update0 username_arg)"
    by (simp add: update_account_settings_def Let_def)
  show ?thesis
  proof (cases "py_eq (username requesting_user) (target_username requesting_user username_arg)")
    case False
    then show ?thesis
      using update_body_other_user [OF assms False] g d1 by (simp add: snd_eq)
  next
    case True
    let ?saved = "save_account_updates Z K d1 requesting_user existing_user p
                    (editable_update Z update0)
                    (if has_key ''name'' (AList.delete ''email'' update0) then name p else PyNone)"
    have kept: "map_of (profiles (snd ?saved)) (fst existing_user) \<noteq> None"
      using d1 by (rule save_account_updates_profile_kept)
    show ?thesis
      unfolding snd_eq update_body_same_user [OF assms True g]
      using d1 kept
      by (cases ?saved)
         (auto simp: request_email_change_profiles split: sum.splits exn.splits option.splits)
  qed
qed

text \<open>A refused call for an account without profile: the profile exists afterwards.\<close>

theorem profile_exists_after_update_witness:
  "objects_get sample_db (target_username alice (PyUnicode (ascii ''carol''))) = Inr (3, carol)
   \<and> map_of (profiles sample_db) 3 = None
   \<and> fst (update_account_settings sample_site sample_serializers sample_collaborators
             sample_db alice intruder_update (PyUnicode (ascii ''carol'')))
      = Inl UserNotAuthorized
   \<and> map_of (profiles (snd (update_account_settings sample_site sample_serializers
                               sample_collaborators sample_db alice intruder_update
                               (PyUnicode (ascii ''carol''))))) 3 \<noteq> None"
proof -
  have found: "objects_get sample_db (target_username alice (PyUnicode (ascii ''carol'')))
                 = Inr (3, carol)"
    by code_simp
  have no_profile: "map_of (profiles sample_db) 3 = None"
    by code_simp
  have refused: "fst (update_account_settings sample_site sample_serializers
                        sample_collaborators sample_db alice intruder_update
                        (PyUnicode (ascii ''carol''))) = Inl UserNotAuthorized"
    by code_simp
  from profile_exists_after_update [OF found, of sample_site sample_serializers
         sample_collaborators intruder_update]
       found no_profile refused
  show ?thesis by simp
qed

lemma map_of_filter_keys:
  "map_of (filter (\<lambda>entry. P (fst entry)) al) k = (if P k then map_of al k else None)"
  by (induction al) auto

lemma map_of_editable_update:
  "map_of (editable_update Z update0) k =
     (if k \<noteq> ''email'' \<and> k \<notin> set (user_read_only_fields Z @ profile_read_only_fields Z)
      then map_of update0 k else None)"
  unfolding editable_update_def
  by (rule map_of_filter_keys [where P = "\<lambda>k. k \<noteq> ''email''
             \<and> k \<notin> set (user_read_only_fields Z @ profile_read_only_fields Z)"])

lemma requested_read_only_fails:
  assumes "failing_fields Z K d u p update0 = []" and "map_of update0 k = Some v"
      and "k \<noteq> ''email''"
  shows "k \<notin> set (user_read_only_fields Z @ profile_read_only_fields Z)"
proof
  assume "k \<in> set (user_read_only_fields Z @ profile_read_only_fields Z)"
  then have "k \<in> set (filter (\<lambda>f. f \<noteq> ''email'' \<and> has_key f update0)
                       (user_read_only_fields Z @ profile_read_only_fields Z))"
    using assms(2,3) by (simp add: has_key_def)
  then have "k \<in> set (failing_fields Z K d u p update0)"
    unfolding failing_fields_def by auto
  then show False using assms(1) by simp
qed

text \<open>
  C9. When an update of the target user passes validation and includes
  \<open>account_privacy\<close>, both serializers are saved, and the preferences subsystem raises
  a preference validation error, \<open>update_account_settings\<close> raises
  \<open>AccountValidationError\<close> with the preference errors; the store is the validated
  store with the saved identity and profile records and nothing else: no event is
  emitted, no name change is recorded, no email change is requested.
\<close>

theorem preference_failure_after_save:
  assumes "objects_get d (target_username requesting_user username_arg) = Inr existing_user"
      and "py_eq (username requesting_user) (target_username requesting_user username_arg)"
      and "get_or_create_profile d (fst existing_user) = (existing_user_profile, d1)"
      and "failing_fields Z K d1 (snd existing_user) existing_user_profile update0 = []"
      and "map_of update0 ''account_privacy'' = Some v"
      and "user_serializer_save Z (snd existing_user) (editable_update Z update0) = Inr saved_user"
      and "profile_serializer_save Z existing_user_profile (editable_update Z update0)
             = Inr saved_profile"
      and "update_user_preferences K requesting_user [(''account_privacy'', v)]
             (fst existing_user, saved_user) (user_preferences d1)
             = Inl (PreferenceValidationError preference_errors)"
  shows "update_account_settings S Z K d requesting_user update0 username_arg
           = (Inl (AccountValidationError preference_errors),
              d1\<lparr>users := AList.update (fst existing_user) saved_user (users d1),
                 profiles := AList.update (fst existing_user) saved_profile (profiles d1)\<rparr>)"
proof -
  have privacy: "map_of (editable_update Z update0) ''account_privacy'' = Some v"
    using requested_read_only_fails [OF assms(4) assms(5)] assms(5)
    by (simp add: map_of_editable_update)
  have saved: "save_account_updates Z K d1 requesting_user existing_user existing_user_profile
                 (editable_update Z update0)
                 (if has_key ''name'' (AList.delete ''email'' update0)
                  then name existing_user_profile else PyNone)
               = (Inl (PreferenceValidationError preference_errors),
                  d1\<lparr>users := AList.update (fst existing_user) saved_user (users d1),
                     profiles := AList.update (fst existing_user) saved_profile (profiles d1)\<rparr>)"
    using assms(6-8) privacy
    by (simp add: save_account_updates_def Let_def save_user_def save_profile_def)
  have valid: "fst (collect_field_errors Z K d1 (snd existing_user) existing_user_profile update0)
                 = []"
    using assms(4) by (simp add: collect_field_errors_empty)
  show ?thesis
    using update_body_same_user [OF assms(1-3)] valid saved
    by (simp add: update_account_settings_def intercept_errors_def)
qed

theorem preference_failure_after_save_witness:
  "objects_get sample_db (target_username ted PyNone) = Inr (1, ted)
   \<and> py_eq (username ted) (target_username ted PyNone)
   \<and> get_or_create_profile sample_db 1 = (ted_profile, sample_db)
   \<and> failing_fields sample_serializers sample_collaborators sample_db ted ted_profile
        bad_privacy_update = []
   \<and> map_of bad_privacy_update ''account_privacy'' = Some (PyStr ''public'')
   \<and> user_serializer_save sample_serializers ted
        (editable_update sample_serializers bad_privacy_update) = Inr ted
   \<and> profile_serializer_save sample_serializers ted_profile
        (editable_update sample_serializers bad_privacy_update)
      = Inr (ted_profile\<lparr>name := PyUnicode (ascii ''Theodore'')\<rparr>)
   \<and> update_user_preferences sample_collaborators ted [(''account_privacy'', PyStr ''public'')]
        (1, ted) (user_preferences sample_db)
      = Inl (PreferenceValidationError [(''account_privacy'', invalid_value)])
   \<and> update_account_settings sample_site sample_serializers sample_collaborators sample_db
        ted bad_privacy_update PyNone
      = (Inl (AccountValidationError [(''account_privacy'', invalid_value)]),
         sample_db\<lparr>users := AList.update 1 ted (users sample_db),
                    profiles := AList.update 1 (ted_profile\<lparr>name := PyUnicode (ascii ''Theodore'')\<rparr>)
                                  (profiles sample_db)\<rparr>)"
proof -
  have found: "objects_get sample_db (target_username ted PyNone) = Inr (1, ted)"
    by code_simp
  have same: "py_eq (username ted) (target_username ted PyNone)"
    by code_simp
  have prof: "get_or_create_profile sample_db (fst (1::nat, ted)) = (ted_profile, sample_db)"
    by code_simp
  have valid: "failing_fields sample_serializers sample_collaborators sample_db
                 (snd (1::nat, ted)) ted_profile bad_privacy_update = []"
    by code_simp
  have privacy: "map_of bad_privacy_update ''account_privacy'' = Some (PyStr ''public'')"
    by code_simp
  have save_u: "user_serializer_save sample_serializers (snd (1::nat, ted))
                  (editable_update sample_serializers bad_privacy_update) = Inr ted"
    by code_simp
  have save_p: "profile_serializer_save sample_serializers ted_profile
                  (editable_update sample_serializers bad_privacy_update)
                = Inr (ted_profile\<lparr>name := PyUnicode (ascii ''Theodore'')\<rparr>)"
    by code_simp
  have prefs: "update_user_preferences sample_collaborators ted
                 [(''account_privacy'', PyStr ''public'')] (fst (1::nat, ted), ted)
                 (user_preferences sample_db)
               = Inl (PreferenceValidationError [(''account_privacy'', invalid_value)])"
    by code_simp
  from preference_failure_after_save [OF found same prof valid privacy save_u save_p prefs,
         of sample_site]
       found same prof valid privacy save_u save_p prefs
  show ?thesis by simp
qed

lemma collect_field_errors_without_email:
  assumes "map_of update0 ''email'' = Some new_email"
      and "validate_new_email K d u new_email = None"
  shows "collect_field_errors Z K d u p (AList.delete ''email'' update0)
           = collect_field_errors Z K d u p update0"
  using assms
  by (simp add: collect_field_errors_def Let_def AList.delete_idem AList.delete_conv')

lemma editable_update_without_email:
  "editable_update Z (AList.delete ''email'' update0) = editable_update Z update0"
  unfolding editable_update_def delete_as_filter filter_filter
  by (rule filter_cong) auto

lemma editable_update_lookup:
  assumes "failing_fields Z K d u p update0 = []" and "k \<noteq> ''email''"
  shows "map_of (editable_update Z update0) k = map_of update0 k"
proof (cases "map_of update0 k")
  case None
  then show ?thesis by (simp add: map_of_editable_update)
next
  case (Some v)
  then show ?thesis
    using requested_read_only_fails [OF assms(1) Some assms(2)]
    by (simp add: map_of_editable_update assms(2))
qed

lemma valid_email_accepted:
  assumes "failing_fields Z K d u p update0 = []"
      and "map_of update0 ''email'' = Some new_email"
  shows "validate_new_email K d u new_email = None"
  using assms by (auto simp: failing_fields_def split: option.splits)

lemma objects_get_in_users: "objects_get d uname = Inr row \<Longrightarrow> row \<in> set (users d)"
proof -
  assume "objects_get d uname = Inr row"
  then have "filter (\<lambda>r. py_eq (username (snd r)) uname) (users d) = [row]"
    by (auto simp: objects_get_def split: list.splits)
  then have "row \<in> set (filter (\<lambda>r. py_eq (username (snd r)) uname) (users d))"
    by simp
  then show ?thesis by simp
qed

lemma update_keeps_emails:
  "distinct (map fst us) \<Longrightarrow> r \<in> set us \<Longrightarrow> email su = email (snd r) \<Longrightarrow>
     map (\<lambda>row. email (snd row)) (AList.update (fst r) su us)
       = map (\<lambda>row. email (snd row)) us"
  by (induction us) (auto simp: image_iff)

lemma get_or_create_profile_users:
  "get_or_create_profile d uid = (p, d1) \<Longrightarrow>
     users d1 = users d \<and> email_change_requests d1 = email_change_requests d"
  by (auto simp: get_or_create_profile_def split: option.splits)

text \<open>
  C4, as stated, fails: an update that passes validation and includes an email change can
  still fail in the persistence steps, before the email step is reached. With the email
  flag disabled and a privacy value that the preferences subsystem rejects, the call
  raises \<open>AccountValidationError\<close>, not \<open>AccountUpdateError\<close>; and when the save of
  the profile serializer raises, the error is the \<open>AccountUpdateError\<close> of the save and
  the new name is not persisted.
\<close>

theorem email_change_disabled_counterexample:
  "objects_get sample_db (target_username ted PyNone) = Inr (1, ted)
   \<and> py_eq (username ted) (target_username ted PyNone)
   \<and> failing_fields sample_serializers sample_collaborators sample_db ted ted_profile
        bad_privacy_update = []
   \<and> map_of bad_privacy_update ''email'' = Some (PyStr ''new@example.com'')
   \<and> FEATURES_ALLOW_EMAIL_ADDRESS_CHANGE sample_site = Some False
   \<and> fst (update_account_settings sample_site sample_serializers sample_collaborators
             sample_db ted bad_privacy_update PyNone)
      = Inl (AccountValidationError [(''account_privacy'', invalid_value)])
   \<and> failing_fields failing_serializers sample_collaborators sample_db ted ted_profile
        rename_and_email_update = []
   \<and> map_of rename_and_email_update ''email'' = Some (PyStr ''new@example.com'')
   \<and> fst (update_account_settings sample_site failing_serializers sample_collaborators
             sample_db ted rename_and_email_update PyNone)
      = Inl (AccountUpdateError
               (''Error thrown when saving account updates: ''
                  @ quoted ''database is locked'') None)
   \<and> map_of (profiles (snd (update_account_settings sample_site failing_serializers
                               sample_collaborators sample_db ted rename_and_email_update
                               PyNone))) 1
      = Some ted_profile"
  by code_simp

text \<open>
  C4, amended. When an update of the target user passes validation and includes an
  email, the email-change flag is disabled, and persistence steps 1 to 4 raise nothing
  (both serializer saves return, and the preferences subsystem accepts
  \<open>account_privacy\<close> when it is present), \<open>update_account_settings\<close> persists all
  non-email changes and raises the \<open>AccountUpdateError\<close> of the email step only: the
  store it leaves holds the identity record and the profile record as the serializers
  saved them, the profile with the old name appended to its history when a name was
  requested and the old name is not empty, the accepted preference, and the event of a
  change of language proficiencies; it is the store that the same update without its
  email field leaves on success. No email change is requested, and the stored emails
  are unchanged provided the identity serializer leaves the email of the record it
  saves as it is.
\<close>

theorem email_change_disabled:
  assumes found: "objects_get d (target_username requesting_user username_arg)
                    = Inr existing_user"
      and same: "py_eq (username requesting_user) (target_username requesting_user username_arg)"
      and prof: "get_or_create_profile d (fst existing_user) = (existing_user_profile, d1)"
      and valid: "failing_fields Z K d1 (snd existing_user) existing_user_profile update0 = []"
      and asked: "map_of update0 ''email'' = Some new_email"
      and disabled: "FEATURES_ALLOW_EMAIL_ADDRESS_CHANGE S = Some False"
      and save_u: "user_serializer_save Z (snd existing_user) (editable_update Z update0)
                     = Inr saved_user"
      and save_p: "profile_serializer_save Z existing_user_profile (editable_update Z update0)
                     = Inr saved_profile"
      and prefs: "(case map_of update0 ''account_privacy'' of
                     None \<Rightarrow> Inr (user_preferences d1)
                   | Some v \<Rightarrow>
                       update_user_preferences K requesting_user [(''account_privacy'', v)]
                         (fst existing_user, saved_user) (user_preferences d1))
                  = Inr saved_preferences"
      and stored: "stored_profile =
                     (if has_key ''name'' update0 \<and> py_truthy (name existing_user_profile)
                      then saved_profile
                             \<lparr>old_names :=
                                Some ((case old_names saved_profile of
                                         None \<Rightarrow> [] | Some entries \<Rightarrow> entries)
                                      @ [(name existing_user_profile,
                                          ascii ''Name change requested through account API by ''
                                            @ py_text (username requesting_user),
                                          now_isoformat K)])\<rparr>
                      else saved_profile)"
      and events: "events =
                     (case map_of update0 ''language_proficiencies'' of
                        None \<Rightarrow> []
                      | Some new_language_proficiencies \<Rightarrow>
                          [\<lparr>event_user = fst existing_user,
                            setting_name = ''language_proficiencies'',
                            old_value = language_proficiencies existing_user_profile,
                            new_value = new_language_proficiencies\<rparr>])"
      and store: "d2 = d1\<lparr>users := AList.update (fst existing_user) saved_user (users d1),
                          profiles :=
                            AList.update (fst existing_user) stored_profile (profiles d1),
                          user_preferences := saved_preferences,
                          emitted_events := emitted_events d1 @ events\<rparr>"
  shows "update_account_settings S Z K d requesting_user update0 username_arg
           = (Inl (AccountUpdateError
                     ''Email address changes have been disabled by the site operators.'' None),
              d2)
         \<and> update_account_settings S Z K d requesting_user (AList.delete ''email'' update0)
             username_arg = (Inr (), d2)
         \<and> map_of (users d2) (fst existing_user) = Some saved_user
         \<and> map_of (profiles d2) (fst existing_user) = Some stored_profile
         \<and> user_preferences d2 = saved_preferences
         \<and> email_change_requests d2 = email_change_requests d
         \<and> (distinct (map fst (users d)) \<and> email saved_user = email (snd existing_user)
            \<longrightarrow> map (\<lambda>row. email (snd row)) (users d2)
                  = map (\<lambda>row. email (snd row)) (users d))"
proof -
  let ?old_name = "if has_key ''name'' (AList.delete ''email'' update0)
                   then name existing_user_profile else PyNone"
  let ?saved = "save_account_updates Z K d1 requesting_user existing_user existing_user_profile
                  (editable_update Z update0) ?old_name"
  have privacy: "map_of (editable_update Z update0) ''account_privacy''
                   = map_of update0 ''account_privacy''"
    using valid by (rule editable_update_lookup) simp
  have languages: "map_of (editable_update Z update0) ''language_proficiencies''
                     = map_of update0 ''language_proficiencies''"
    using valid by (rule editable_update_lookup) simp
  have saved: "?saved = (Inr saved_user, d2)"
  proof (cases "map_of update0 ''account_privacy''")
    case None
    then show ?thesis
      using save_u save_p prefs
      unfolding stored events store
      by (auto simp: save_account_updates_def Let_def save_user_def save_profile_def
            emit_setting_changed_event_def record_name_change_def has_key_delete privacy
            languages split: option.splits)
  next
    case (Some v)
    then show ?thesis
      using save_u save_p prefs
      unfolding stored events store
      by (auto simp: save_account_updates_def Let_def save_user_def save_profile_def
            emit_setting_changed_event_def record_name_change_def has_key_delete privacy
            languages split: option.splits)
  qed
  have passes: "fst (collect_field_errors Z K d1 (snd existing_user) existing_user_profile
                       update0) = []"
    using valid by (simp add: collect_field_errors_empty)
  have result: "update_account_settings S Z K d requesting_user update0 username_arg
           = (Inl (AccountUpdateError
                     ''Email address changes have been disabled by the site operators.'' None),
              d2)"
    using passes saved asked disabled
    by (simp add: update_account_settings_def Let_def intercept_errors_def
          update_body_same_user [OF found same prof] request_email_change_def)
  have accepted: "validate_new_email K d1 (snd existing_user) new_email = None"
    using valid asked by (rule valid_email_accepted)
  have no_email: "map_of (AList.delete ''email'' update0) ''email'' = None"
    by (simp add: AList.delete_conv')
  have others: "update_account_settings S Z K d requesting_user
                  (AList.delete ''email'' update0) username_arg = (Inr (), d2)"
    using passes saved
    by (simp add: update_account_settings_def Let_def intercept_errors_def
          update_body_same_user [OF found same prof]
          collect_field_errors_without_email [OF asked accepted]
          editable_update_without_email AList.delete_idem no_email)
  note same_tables = get_or_create_profile_users [OF prof]
  have user_row: "map_of (users d2) (fst existing_user) = Some saved_user"
    unfolding store by (simp add: AList.update_conv')
  have profile_row: "map_of (profiles d2) (fst existing_user) = Some stored_profile"
    unfolding store by (simp add: AList.update_conv')
  have preferences: "user_preferences d2 = saved_preferences"
    unfolding store by simp
  have requests: "email_change_requests d2 = email_change_requests d"
    unfolding store using same_tables by simp
  have emails: "map (\<lambda>row. email (snd row)) (users d2) = map (\<lambda>row. email (snd row)) (users d)"
    if keys: "distinct (map fst (users d))"
      and kept: "email saved_user = email (snd existing_user)"
  proof -
    have "existing_user \<in> set (users d)"
      using objects_get_in_users [OF found] .
    then show ?thesis
      unfolding store using keys kept same_tables by (simp add: update_keeps_emails)
  qed
  show ?thesis
    using result others user_row profile_row preferences requests emails by blast
qed

text \<open>
  Ted renames himself, sets his privacy to private and asks for a new email while email
  changes are disabled: the new name, the old name in the history and the preference
  are stored, no email change is requested, and the call raises the error of the email
  step.
\<close>

theorem email_change_disabled_witness:
  "objects_get sample_db (target_username ted PyNone) = Inr (1, ted)
   \<and> py_eq (username ted) (target_username ted PyNone)
   \<and> get_or_create_profile sample_db 1 = (ted_profile, sample_db)
   \<and> failing_fields sample_serializers sample_collaborators sample_db ted ted_profile
        rename_and_email_update = []
   \<and> map_of rename_and_email_update ''email'' = Some (PyStr ''new@example.com'')
   \<and> FEATURES_ALLOW_EMAIL_ADDRESS_CHANGE sample_site = Some False
   \<and> user_serializer_save sample_serializers ted
        (editable_update sample_serializers rename_and_email_update) = Inr ted
   \<and> profile_serializer_save sample_serializers ted_profile
        (editable_update sample_serializers rename_and_email_update)
      = Inr (ted_profile\<lparr>name := PyUnicode (ascii ''Theodore'')\<rparr>)
   \<and> update_user_preferences sample_collaborators ted
        [(''account_privacy'', PyStr ''private'')] (1, ted) (user_preferences sample_db)
      = Inr [((1, ''account_privacy''), PyStr ''private'')]
   \<and> distinct (map fst (users sample_db))
   \<and> fst (update_account_settings sample_site sample_serializers sample_collaborators
             sample_db ted rename_and_email_update PyNone)
      = Inl (AccountUpdateError
               ''Email address changes have been disabled by the site operators.'' None)
   \<and> map_of (users (snd (update_account_settings sample_site sample_serializers
                            sample_collaborators sample_db ted rename_and_email_update PyNone)))
        1 = Some ted
   \<and> map_of (profiles (snd (update_account_settings sample_site sample_serializers
                               sample_collaborators sample_db ted rename_and_email_update
                               PyNone))) 1
      = Some (ted_profile
                \<lparr>name := PyUnicode (ascii ''Theodore''),
                 old_names :=
                   Some [(PyUnicode (ascii ''Ted T''),
                          ascii ''Name change requested through account API by ted'',
                          ''2017-01-01T00:00:00+00:00'')]\<rparr>)
   \<and> user_preferences
        (snd (update_account_settings sample_site sample_serializers sample_collaborators
                sample_db ted rename_and_email_update PyNone))
      = [((1, ''account_privacy''), PyStr ''private'')]
   \<and> email_change_requests
        (snd (update_account_settings sample_site sample_serializers sample_collaborators
                sample_db ted rename_and_email_update PyNone)) = []
   \<and> map (\<lambda>row. email (snd row))
        (users (snd (update_account_settings sample_site sample_serializers
                       sample_collaborators sample_db ted rename_and_email_update PyNone)))
      = map (\<lambda>row. email (snd row)) (users sample_db)
   \<and> snd (update_account_settings sample_site sample_serializers sample_collaborators
             sample_db ted (AList.delete ''email'' rename_and_email_update) PyNone)
      = snd (update_account_settings sample_site sample_serializers sample_collaborators
               sample_db ted rename_and_email_update PyNone)"
proof -
  let ?stored = "ted_profile
                   \<lparr>name := PyUnicode (ascii ''Theodore''),
                    old_names :=
                      Some [(PyUnicode (ascii ''Ted T''),
                             ascii ''Name change requested through account API by ted'',
                             ''2017-01-01T00:00:00+00:00'')]\<rparr>"
  let ?prefs = "[((1::nat, ''account_privacy''), PyStr ''private'')]"
  let ?d2 = "sample_db\<lparr>users := AList.update (fst (1::nat, ted)) ted (users sample_db),
                        profiles := AList.update (fst (1::nat, ted)) ?stored (profiles sample_db),
                        user_preferences := ?prefs,
                        emitted_events := emitted_events sample_db @ []\<rparr>"
  have found: "objects_get sample_db (target_username ted PyNone) = Inr (1, ted)"
    by code_simp
  have same: "py_eq (username ted) (target_username ted PyNone)"
    by code_simp
  have prof: "get_or_create_profile sample_db (fst (1::nat, ted)) = (ted_profile, sample_db)"
    by code_simp
  have valid: "failing_fields sample_serializers sample_collaborators sample_db
                 (snd (1::nat, ted)) ted_profile rename_and_email_update = []"
    by code_simp
  have asked: "map_of rename_and_email_update ''email'' = Some (PyStr ''new@example.com'')"
    by code_simp
  have disabled: "FEATURES_ALLOW_EMAIL_ADDRESS_CHANGE sample_site = Some False"
    by code_simp
  have save_u: "user_serializer_save sample_serializers (snd (1::nat, ted))
                  (editable_update sample_serializers rename_and_email_update) = Inr ted"
    by code_simp
  have save_p: "profile_serializer_save sample_serializers ted_profile
                  (editable_update sample_serializers rename_and_email_update)
                = Inr (ted_profile\<lparr>name := PyUnicode (ascii ''Theodore'')\<rparr>)"
    by code_simp
  have prefs: "(case map_of rename_and_email_update ''account_privacy'' of
                  None \<Rightarrow> Inr (user_preferences sample_db)
                | Some v \<Rightarrow>
                    update_user_preferences sample_collaborators ted [(''account_privacy'', v)]
                      (fst (1::nat, ted), ted) (user_preferences sample_db))
               = Inr ?prefs"
    by code_simp
  have stored: "?stored =
                  (if has_key ''name'' rename_and_email_update \<and> py_truthy (name ted_profile)
                   then (ted_profile\<lparr>name := PyUnicode (ascii ''Theodore'')\<rparr>)
                          \<lparr>old_names :=
                             Some ((case old_names
                                           (ted_profile\<lparr>name := PyUnicode (ascii ''Theodore'')\<rparr>) of
                                      None \<Rightarrow> [] | Some entries \<Rightarrow> entries)
                                   @ [(name ted_profile,
                                       ascii ''Name change requested through account API by ''
                                         @ py_text (username ted),
                                       now_isoformat sample_collaborators)])\<rparr>
                   else ted_profile\<lparr>name := PyUnicode (ascii ''Theodore'')\<rparr>)"
    by code_simp
  have events: "[] =
                  (case map_of rename_and_email_update ''language_proficiencies'' of
                     None \<Rightarrow> []
                   | Some new_language_proficiencies \<Rightarrow>
                       [\<lparr>event_user = fst (1::nat, ted),
                         setting_name = ''language_proficiencies'',
                         old_value = language_proficiencies ted_profile,
                         new_value = new_language_proficiencies\<rparr>])"
    by code_simp
  have store: "?d2 = ?d2" ..
  note main = email_change_disabled [OF found same prof valid asked disabled save_u save_p
                prefs stored events store]
  have result: "update_account_settings sample_site sample_serializers sample_collaborators
                  sample_db ted rename_and_email_update PyNone
                = (Inl (AccountUpdateError
                          ''Email address changes have been disabled by the site operators.''
                          None), ?d2)"
    using main by (rule conjunct1)
  have others: "update_account_settings sample_site sample_serializers sample_collaborators
                  sample_db ted (AList.delete ''email'' rename_and_email_update) PyNone
                = (Inr (), ?d2)"
    using main by blast
  have store_eq: "snd (update_account_settings sample_site sample_serializers
                         sample_collaborators sample_db ted rename_and_email_update PyNone)
                  = ?d2"
    by (simp only: result snd_conv)
  have others_eq: "snd (update_account_settings sample_site sample_serializers
                          sample_collaborators sample_db ted
                          (AList.delete ''email'' rename_and_email_update) PyNone) = ?d2"
    by (simp only: others snd_conv)
  have error: "fst (update_account_settings sample_site sample_serializers
                      sample_collaborators sample_db ted rename_and_email_update PyNone)
               = Inl (AccountUpdateError
                        ''Email address changes have been disabled by the site operators.''
                        None)"
    by (simp only: result fst_conv)
  have user_row: "map_of (users ?d2) 1 = Some ted"
    using main by simp
  have profile_row: "map_of (profiles ?d2) 1 = Some ?stored"
    using main by simp
  have preferences: "user_preferences ?d2 = ?prefs"
    using main by blast
  have none: "email_change_requests sample_db = []"
    by code_simp
  have requests: "email_change_requests ?d2 = []"
    using main none by simp
  have keys: "distinct (map fst (users sample_db))"
    by code_simp
  have kept: "email ted = email (snd (1::nat, ted))"
    by simp
  have emails: "map (\<lambda>row. email (snd row)) (users ?d2)
                  = map (\<lambda>row. email (snd row)) (users sample_db)"
    using main keys kept by blast
  have prof': "get_or_create_profile sample_db 1 = (ted_profile, sample_db)"
    using prof by (simp only: fst_conv)
  have valid': "failing_fields sample_serializers sample_collaborators sample_db ted
                  ted_profile rename_and_email_update = []"
    using valid by (simp only: snd_conv)
  have save_u': "user_serializer_save sample_serializers ted
                   (editable_update sample_serializers rename_and_email_update) = Inr ted"
    using save_u by (simp only: snd_conv)
  have prefs': "update_user_preferences sample_collaborators ted
                  [(''account_privacy'', PyStr ''private'')] (1, ted)
                  (user_preferences sample_db) = Inr ?prefs"
    by code_simp
  show ?thesis
    unfolding store_eq others_eq
    by (intro conjI found same prof' valid' asked disabled save_u' save_p prefs' keys error
          user_row profile_row preferences requests emails refl)
qed

end
